theory Spec2Isabelle
  imports Complex_Main
begin

section \<open>Numbers and small library functions\<close>

text \<open>
  The program is JavaScript. Its numbers are modelled as \<^typ>\<open>real\<close>: NaN and the
  infinities of IEEE doubles are not represented. The program rounds the result of every
  operation to the nearest double, which \<open>to_double\<close> below does to a real number. The
  model follows the program in this where a score is computed that a statement is about:
  in the two branches of the momentum breakout detector the operations are rounded, and in
  the meta-score of the full ensemble the operations \<open>+\<close>, \<open>*\<close> and \<open>/\<close> are a
  parameter of the model (the record \<open>arith\<close>), the rounded ones or the exact ones.
  Elsewhere the operations are written exactly, and the statements are settled where the
  rounding decides nothing: they are about the branch that is taken and about values
  returned as they were given, about runs on concrete inputs on which the operations are
  exact or the comparisons far from equality, or about values that are rounded to a few
  decimals before they are returned. Array lengths, periods and hours are \<^typ>\<open>nat\<close>.

  JavaScript divides by zero without an exception and gives an infinity or NaN, where HOL
  gives 0. Where the text at a function says so, the model writes out what that value does
  to the branch taken and to the score; elsewhere the model is the code's arithmetic only
  on inputs that make no denominator zero (prices, band middles and periods that are not
  zero). No exception is lost by this: the arithmetic of JavaScript never throws.

  Names follow the source. Where Isabelle has the name already, the model writes
  \<open>c_open\<close> for the field \<open>open\<close>, \<open>size_pos\<close> for \<open>size\<close>, \<open>book\<close> for \<open>orderbook\<close>, and
  \<open>tf1m\<close>, \<open>tf15m\<close>, \<open>tf1h\<close>, \<open>tf4h\<close> for the keys \<open>1m\<close>, \<open>15m\<close>, \<open>1h\<close>, \<open>4h\<close>.
\<close>

text \<open>\<^verbatim>\<open>Math.round(x)\<close>: the nearest integer, a tie going up.\<close>

definition Math_round :: "real \<Rightarrow> real" where
  "Math_round x = of_int \<lfloor>x + 1 / 2\<rfloor>"

text \<open>
  \<^verbatim>\<open>x.toFixed(f)\<close>, read back as a number: \<open>x\<close> rounded to \<open>f\<close> decimals, a tie going
  away from zero (the sign is split off first).
\<close>

definition toFixed :: "nat \<Rightarrow> real \<Rightarrow> real" where
  "toFixed f x =
     (if x < 0 then - (of_int \<lfloor>(- x) * 10 ^ f + 1 / 2\<rfloor> / 10 ^ f)
      else of_int \<lfloor>x * 10 ^ f + 1 / 2\<rfloor> / 10 ^ f)"

text \<open>
  The double nearest to a number. Between \<open>2^e\<close> and \<open>2^(e+1)\<close> the doubles are the
  multiples of \<open>2^(e-52)\<close>, and of the two multiples around a number the nearer one is
  taken, the one with the even factor on a tie. \<open>exponent x\<close> is this \<open>e\<close>, the integer
  part of the binary logarithm of the size of \<open>x\<close>, found by halving the integer part of
  the size, or of its reciprocal when the size is below 1. The exponent is not bounded
  here, so this is the rounding of the program for the numbers whose size lies between
  \<open>2^-1022\<close> and \<open>2^1024\<close>; beyond these the program has subnormal numbers and infinities,
  which the model has not.
\<close>

function ilog2 :: "int \<Rightarrow> int" where
  "ilog2 n = (if n < 2 then 0 else ilog2 (n div 2) + 1)"
  by pat_completeness auto
termination by (relation "measure nat") auto

declare ilog2.simps [simp del]

definition exponent :: "real \<Rightarrow> int" where
  "exponent x =
     (if 1 \<le> \<bar>x\<bar> then ilog2 \<lfloor>\<bar>x\<bar>\<rfloor>
      else let k = ilog2 \<lfloor>1 / \<bar>x\<bar>\<rfloor>
           in if 1 / \<bar>x\<bar> = 2 powi k then - k else - k - 1)"

definition round_even :: "real \<Rightarrow> int" where
  "round_even x =
     (let n = \<lfloor>x\<rfloor>
      in if x - of_int n < 1 / 2 then n
         else if 1 / 2 < x - of_int n then n + 1
         else if even n then n else n + 1)"

definition to_double :: "real \<Rightarrow> real" where
  "to_double x =
     (if x = 0 then 0
      else let e = exponent x - 52
           in of_int (round_even (x / 2 powi e)) * 2 powi e)"

text \<open>\<^verbatim>\<open>arr.reduce((a, b) => a + b, 0)\<close>\<close>

definition reduce_sum :: "real list \<Rightarrow> real" where
  "reduce_sum xs = foldl (\<lambda>a b. a + b) 0 xs"

text \<open>
  \<^verbatim>\<open>arr.slice(-n)\<close> for a natural number \<open>n\<close>: the last \<open>n\<close> elements, the whole array
  when it is shorter, and the whole array for \<open>n = 0\<close> (\<open>-0\<close> is index 0).
\<close>

definition slice_last :: "nat \<Rightarrow> 'a list \<Rightarrow> 'a list" where
  "slice_last n xs = (if n = 0 then xs else drop (length xs - n) xs)"

text \<open>
  \<^verbatim>\<open>Math.max(...xs)\<close> and \<^verbatim>\<open>Math.min(...xs)\<close>. On an empty array JavaScript gives
  \<open>-Infinity\<close> and \<open>Infinity\<close>; the detectors only call them on windows that are not
  empty, and the empty case here is a placeholder.
\<close>

fun Math_max :: "real list \<Rightarrow> real" where
  "Math_max [] = 0"
| "Math_max [x] = x"
| "Math_max (x # y # ys) = max x (Math_max (y # ys))"

fun Math_min :: "real list \<Rightarrow> real" where
  "Math_min [] = 0"
| "Math_min [x] = x"
| "Math_min (x # y # ys) = min x (Math_min (y # ys))"

section \<open>utils.js: TradingUtils\<close>

record candle =
  timestamp :: real
  c_open :: real
  high :: real
  low :: real
  close :: real
  volume :: real

text \<open>
  \<^verbatim>\<open>
  static calculateZScore(value, array) {
    if (!array || array.length === 0) return 0;
    const mean = array.reduce((a, b) => a + b, 0) / array.length;
    const stdDev = Math.sqrt(
      array.reduce((sq, n) => sq + Math.pow(n - mean, 2), 0) / array.length);
    return stdDev === 0 ? 0 : (value - mean) / stdDev;
  }
  \<close>
\<close>

definition calculateZScore :: "real \<Rightarrow> real list \<Rightarrow> real" where
  "calculateZScore v array =
     (if length array = 0 then 0
      else
        let mean = reduce_sum array / real (length array);
            stdDev = sqrt (foldl (\<lambda>sq n. sq + (n - mean) ^ 2) 0 array / real (length array))
        in if stdDev = 0 then 0 else (v - mean) / stdDev)"

text \<open>
  \<^verbatim>\<open>
  static calculatePositionSize(accountBalance, riskPercent, entry, stopLoss) {
    const riskAmount = accountBalance * (riskPercent / 100);
    const riskPerUnit = Math.abs(entry - stopLoss);
    if (riskPerUnit === 0) return { size: 0, maxLoss: 0 };
    const size = riskAmount / riskPerUnit;
    return { size: size.toFixed(8), maxLoss: riskAmount.toFixed(2) };
  }
  \<close>
  The two fields of the second result are decimal strings in the source; the model keeps
  the numbers they denote.
\<close>

record position_sizing =
  size_pos :: real
  maxLoss :: real

definition calculatePositionSize :: "real \<Rightarrow> real \<Rightarrow> real \<Rightarrow> real \<Rightarrow> position_sizing" where
  "calculatePositionSize accountBalance riskPercent entry stopLoss =
     (let riskAmount = accountBalance * (riskPercent / 100);
          riskPerUnit = \<bar>entry - stopLoss\<bar>
      in if riskPerUnit = 0 then \<lparr>size_pos = 0, maxLoss = 0\<rparr>
         else \<lparr>size_pos = toFixed 8 (riskAmount / riskPerUnit), maxLoss = toFixed 2 riskAmount\<rparr>)"


section \<open>Snapshots, verdicts and faults\<close>

text \<open>
  A market snapshot is a JavaScript object: candle arrays under the keys \<open>1m\<close>, \<open>15m\<close>,
  \<open>1h\<close> and \<open>4h\<close>, an order book and a ticker. The detectors are written to survive
  malformed snapshots, so the model keeps the malformations that make the code throw:
  the snapshot itself may be \<open>null\<close> (\<open>None\<close>), a key may be missing (\<open>None\<close>), and an
  array may hold a \<open>null\<close> in place of a candle (\<open>None\<close>). The fields of a candle that is
  present are numbers.
\<close>

record orderbook =
  bids :: "(real \<times> real) list option"
  asks :: "(real \<times> real) list option"

record snapshot =
  tf1m :: "candle option list option"
  tf15m :: "candle option list option"
  tf1h :: "candle option list option"
  tf4h :: "candle option list option"
  book :: "orderbook option"
  ticker_last :: "real option"

datatype direction = LONG | SHORT | NEUTRAL

text \<open>
  Exceptions, with their message: a property read on \<open>null\<close> (the only exception the
  modelled code raises itself), and whatever the indicator library throws.
\<close>

datatype error = TypeError string | LibraryError string

fun message :: "error \<Rightarrow> string" where
  "message (TypeError m) = m"
| "message (LibraryError m) = m"

text \<open>
  The \<open>reason\<close> of a verdict is a string. The model keeps which text it is: a fixed text,
  a template with the numbers put into it, or one of the two fault texts
  \<^verbatim>\<open>`Error: ${error.message}`\<close> and \<^verbatim>\<open>`Detector error: ${error.message}`\<close>.
\<close>

datatype reason =
    Plain string
  | Formatted string "real list"
  | ErrorReason string
  | DetectorError string

record verdict =
  name :: "string option"
  score :: real
  direction :: direction
  reason :: reason
  metadata :: "(string \<times> real) list option"
  weight :: "real option"

text \<open>Sequencing of steps that may throw: the first exception ends the block.\<close>

fun and_then :: "error + 'a \<Rightarrow> ('a \<Rightarrow> error + 'b) \<Rightarrow> error + 'b" where
  "and_then (Inl e) f = Inl e"
| "and_then (Inr x) f = f x"

text \<open>\<^verbatim>\<open>data[key] || []\<close>: throws on a \<open>null\<close> snapshot, an absent key gives the empty array.\<close>

definition timeframe :: "string \<Rightarrow> (snapshot \<Rightarrow> candle option list option) \<Rightarrow> snapshot option
    \<Rightarrow> error + candle option list" where
  "timeframe key sel data =
     (case data of
        None \<Rightarrow> Inl (TypeError (''Cannot read properties of null (reading '' @ key @ '')''))
      | Some d \<Rightarrow> Inr (case sel d of None \<Rightarrow> [] | Some cs \<Rightarrow> cs))"

text \<open>\<^verbatim>\<open>c.field\<close> for an array element \<open>c\<close>, and \<^verbatim>\<open>arr.map(c => c.field)\<close>.\<close>

definition read_prop :: "string \<Rightarrow> (candle \<Rightarrow> real) \<Rightarrow> candle option \<Rightarrow> error + real" where
  "read_prop key sel c =
     (case c of
        None \<Rightarrow> Inl (TypeError (''Cannot read properties of null (reading '' @ key @ '')''))
      | Some x \<Rightarrow> Inr (sel x))"

fun map_prop :: "string \<Rightarrow> (candle \<Rightarrow> real) \<Rightarrow> candle option list \<Rightarrow> error + real list" where
  "map_prop key sel [] = Inr []"
| "map_prop key sel (c # cs) =
     and_then (read_prop key sel c) (\<lambda>x. and_then (map_prop key sel cs) (\<lambda>xs. Inr (x # xs)))"

text \<open>The verdict of a \<^verbatim>\<open>catch (error)\<close> block of a detector.\<close>

definition caught :: "string \<Rightarrow> error \<Rightarrow> verdict" where
  "caught nm e =
     \<lparr>name = Some nm, score = 0, direction = NEUTRAL, reason = ErrorReason (message e),
      metadata = None, weight = None\<rparr>"

text \<open>The early return \<^verbatim>\<open>{ score: 0, direction: 'NEUTRAL', reason: r }\<close>, which has no name.\<close>

definition neutral :: "string \<Rightarrow> verdict" where
  "neutral r =
     \<lparr>name = None, score = 0, direction = NEUTRAL, reason = Plain r,
      metadata = None, weight = None\<rparr>"

text \<open>
  The configuration object handed to the detectors, after the defaults of their parameter
  destructuring (\<^verbatim>\<open>const { breakoutPeriod = 20, ... } = config\<close>) have been applied.
  A \<open>null\<close> configuration is \<open>None\<close>: destructuring it throws, outside the \<open>try\<close> block.
\<close>

record config =
  breakoutPeriod :: nat
  volumeMultiplier :: real
  minBreakoutPercent :: real
  vwapDelta :: real
  volumeUptick :: real
  bbPeriod :: nat
  bbStdDev :: real
  squeezePercentile :: real
  volumeZScoreThreshold :: real
  rsiOverbought :: real
  rsiOversold :: real

definition default_config :: config where
  "default_config =
     \<lparr>breakoutPeriod = 20, volumeMultiplier = 1.5, minBreakoutPercent = 1.0,
      vwapDelta = 0.002, volumeUptick = 1.2,
      bbPeriod = 20, bbStdDev = 2, squeezePercentile = 10,
      volumeZScoreThreshold = 2.0, rsiOverbought = 70, rsiOversold = 30\<rparr>"

definition destructure :: "config option \<Rightarrow> (config \<Rightarrow> verdict) \<Rightarrow> error + verdict" where
  "destructure config body =
     (case config of
        None \<Rightarrow> Inl (TypeError ''Cannot destructure property of null'')
      | Some cfg \<Rightarrow> Inr (body cfg))"

section \<open>signal/detectors.js: momentumBreakoutDetector\<close>

text \<open>
  \<^verbatim>\<open>
  const currentClose = closes15m[closes15m.length - 1];
  const currentHigh = highs15m[highs15m.length - 1];
  const recentHigh = Math.max(...highs15m.slice(-breakoutPeriod));
  const recentLow = Math.min(...highs15m.slice(-breakoutPeriod));
  const volumeMA = volumes15m.slice(-breakoutPeriod).reduce((a, b) => a + b, 0) / breakoutPeriod;
  const currentVolume = volumes15m[volumes15m.length - 1];
  const volumeZScore = TradingUtils.calculateZScore(currentVolume, volumes15m.slice(-breakoutPeriod));
  const isBreakout = currentHigh >= recentHigh * (1 + minBreakoutPercent / 100);
  const hasVolumeSpike = volumeZScore > 1.0 && currentVolume > volumeMA * volumeMultiplier;
  \<close>
  Both \<open>recentHigh\<close> and \<open>recentLow\<close> are taken from the highs, over a window that ends
  with the current candle. The three arrays have at least \<open>breakoutPeriod + 5\<close> elements
  when this part runs, so the last element exists and the windows are not empty. The
  quotients are by \<open>breakoutPeriod\<close>, \<open>recentHigh\<close> and \<open>recentLow\<close>; the model is that
  of the program where these are not zero. The two tests are written with exact products.
\<close>

definition recentHigh :: "config \<Rightarrow> real list \<Rightarrow> real" where
  "recentHigh cfg highs15m = Math_max (slice_last (breakoutPeriod cfg) highs15m)"

definition recentLow :: "config \<Rightarrow> real list \<Rightarrow> real" where
  "recentLow cfg highs15m = Math_min (slice_last (breakoutPeriod cfg) highs15m)"

definition volumeMA :: "config \<Rightarrow> real list \<Rightarrow> real" where
  "volumeMA cfg volumes15m =
     reduce_sum (slice_last (breakoutPeriod cfg) volumes15m) / real (breakoutPeriod cfg)"

definition volumeZScore :: "config \<Rightarrow> real list \<Rightarrow> real" where
  "volumeZScore cfg volumes15m =
     calculateZScore (last volumes15m) (slice_last (breakoutPeriod cfg) volumes15m)"

definition isBreakout :: "config \<Rightarrow> real list \<Rightarrow> bool" where
  "isBreakout cfg highs15m \<longleftrightarrow>
     last highs15m \<ge> recentHigh cfg highs15m * (1 + minBreakoutPercent cfg / 100)"

definition hasVolumeSpike :: "config \<Rightarrow> real list \<Rightarrow> bool" where
  "hasVolumeSpike cfg volumes15m \<longleftrightarrow>
     volumeZScore cfg volumes15m > 1.0
     \<and> last volumes15m > volumeMA cfg volumes15m * volumeMultiplier cfg"

text \<open>
  \<^verbatim>\<open>
  if (isBreakout && hasVolumeSpike) {
    const breakoutStrength = ((currentHigh - recentHigh) / recentHigh) * 100;
    const volumeStrength = Math.min(volumeZScore, 3) / 3 * 100;
    score = Math.min(100, (breakoutStrength * 0.6 + volumeStrength * 0.4) * 2);
    direction = 'LONG';
  } else if (currentClose < recentLow * 0.99 && hasVolumeSpike) {
    const breakdownStrength = ((recentLow - currentClose) / recentLow) * 100;
    score = Math.min(100, breakdownStrength * 1.5);
    direction = 'SHORT';
  }
  return { name: 'momentum_breakout', score: Math.round(score), direction, reason,
           metadata: { recentHigh, recentLow, volumeZScore,
                       breakoutStrength: isBreakout ? ((currentHigh - recentHigh) / recentHigh) * 100 : 0 } };
  \<close>
  The strengths and the scores of the two branches are computed as the program computes
  them, every operation rounded to the nearest double: a score that lies next to a half
  before \<open>Math.round\<close> comes out one point lower or higher than exact arithmetic gives.
  \<open>Math.min\<close> and \<open>Math.round\<close> are exact. The literals 0.6 and 0.4 stand for the
  doubles nearest to them; 100, 3, 2 and 1.5 are doubles.
\<close>

definition breakoutStrength :: "config \<Rightarrow> real list \<Rightarrow> real" where
  "breakoutStrength cfg highs15m =
     to_double
       (to_double (to_double (last highs15m - recentHigh cfg highs15m) / recentHigh cfg highs15m)
          * 100)"

definition breakdownStrength :: "config \<Rightarrow> real list \<Rightarrow> real list \<Rightarrow> real" where
  "breakdownStrength cfg closes15m highs15m =
     to_double
       (to_double (to_double (recentLow cfg highs15m - last closes15m) / recentLow cfg highs15m)
          * 100)"

definition momentumBreakout_verdict :: "config \<Rightarrow> real list \<Rightarrow> real list \<Rightarrow> real list \<Rightarrow> verdict" where
  "momentumBreakout_verdict cfg closes15m volumes15m highs15m =
     (let (score0, direction0, reason0) =
            (if isBreakout cfg highs15m \<and> hasVolumeSpike cfg volumes15m then
               (let volumeStrength =
                      to_double (to_double (min (volumeZScore cfg volumes15m) 3 / 3) * 100)
                in (min 100
                      (to_double
                         (to_double
                            (to_double (breakoutStrength cfg highs15m * to_double 0.6)
                               + to_double (volumeStrength * to_double 0.4))
                            * 2)),
                    LONG,
                    Formatted ''Breakout''
                      [toFixed 2 (breakoutStrength cfg highs15m),
                       toFixed 2 (volumeZScore cfg volumes15m)]))
             else if last closes15m < recentLow cfg highs15m * 0.99 \<and> hasVolumeSpike cfg volumes15m then
               (min 100 (to_double (breakdownStrength cfg closes15m highs15m * 1.5)),
                SHORT,
                Formatted ''Breakdown'' [toFixed 2 (breakdownStrength cfg closes15m highs15m)])
             else (0, NEUTRAL, Plain ''No breakout detected''))
      in \<lparr>name = Some ''momentum_breakout'',
          score = Math_round score0,
          direction = direction0,
          reason = reason0,
          metadata = Some
            [(''recentHigh'', recentHigh cfg highs15m),
             (''recentLow'', recentLow cfg highs15m),
             (''volumeZScore'', volumeZScore cfg volumes15m),
             (''breakoutStrength'',
                if isBreakout cfg highs15m then breakoutStrength cfg highs15m else 0)],
          weight = None\<rparr>)"

text \<open>
  The \<open>try\<close> block:
  \<^verbatim>\<open>
  const candles15m = data['15m'] || [];
  const candles1h = data['1h'] || [];
  if (candles15m.length < breakoutPeriod + 5) {
    return { score: 0, direction: 'NEUTRAL', reason: 'Insufficient data' };
  }
  const closes15m = candles15m.map(c => c.close);
  const volumes15m = candles15m.map(c => c.volume);
  const highs15m = candles15m.map(c => c.high);
  \<close>
\<close>

definition momentumBreakout_try :: "snapshot option \<Rightarrow> config \<Rightarrow> error + verdict" where
  "momentumBreakout_try data cfg =
     and_then (timeframe ''15m'' tf15m data) (\<lambda>candles15m.
     and_then (timeframe ''1h'' tf1h data) (\<lambda>candles1h.
       if length candles15m < breakoutPeriod cfg + 5 then Inr (neutral ''Insufficient data'')
       else
         and_then (map_prop ''close'' close candles15m) (\<lambda>closes15m.
         and_then (map_prop ''volume'' volume candles15m) (\<lambda>volumes15m.
         and_then (map_prop ''high'' high candles15m) (\<lambda>highs15m.
           Inr (momentumBreakout_verdict cfg closes15m volumes15m highs15m))))))"

text \<open>
  \<^verbatim>\<open>
  static momentumBreakoutDetector(data, config = {}) {
    const { breakoutPeriod = 20, volumeMultiplier = 1.5, minBreakoutPercent = 1.0 } = config;
    try { ... } catch (error) {
      return { name: 'momentum_breakout', score: 0, direction: 'NEUTRAL',
               reason: `Error: ${error.message}` };
    }
  }
  \<close>
\<close>

definition momentumBreakoutDetector :: "snapshot option \<Rightarrow> config option \<Rightarrow> error + verdict" where
  "momentumBreakoutDetector data config =
     destructure config (\<lambda>cfg.
       case momentumBreakout_try data cfg of
         Inr v \<Rightarrow> v
       | Inl e \<Rightarrow> caught ''momentum_breakout'' e)"

section \<open>The world outside the program\<close>

text \<open>
  \<open>RSI.calculate\<close> and \<open>BollingerBands.calculate\<close> belong to the package
  \<open>technicalindicators\<close>, which is not part of the repository, and \<open>Math.random()\<close> is
  the runtime's. They are parameters of the model: the two library functions may return
  any array or throw, and \<open>Math_random\<close> is the number the next call of \<open>Math.random()\<close>
  returns (one run of the detectors calls it at most once).
\<close>

record bands =
  upper :: real
  middle :: real
  lower :: real

record env =
  RSI_calculate :: "real list \<Rightarrow> nat \<Rightarrow> error + real list"
  BollingerBands_calculate :: "real list \<Rightarrow> nat \<Rightarrow> real \<Rightarrow> error + bands list"
  Math_random :: real

section \<open>utils.js: the indicators used by the detectors\<close>

text \<open>
  \<^verbatim>\<open>
  static calculateVWAP(candles) {
    if (!candles || candles.length === 0) return 0;
    let cumulativeTPV = 0; let cumulativeVolume = 0;
    candles.forEach(candle => {
      const typicalPrice = (candle.high + candle.low + candle.close) / 3;
      cumulativeTPV += typicalPrice * candle.volume;
      cumulativeVolume += candle.volume;
    });
    return cumulativeVolume > 0 ? cumulativeTPV / cumulativeVolume : 0;
  }
  \<close>
\<close>

fun vwap_forEach :: "candle option list \<Rightarrow> real \<times> real \<Rightarrow> error + real \<times> real" where
  "vwap_forEach [] acc = Inr acc"
| "vwap_forEach (c # cs) (cumulativeTPV, cumulativeVolume) =
     (case c of
        None \<Rightarrow> Inl (TypeError ''Cannot read properties of null (reading high)'')
      | Some candle \<Rightarrow>
          (let typicalPrice = (high candle + low candle + close candle) / 3
           in vwap_forEach cs
                (cumulativeTPV + typicalPrice * volume candle, cumulativeVolume + volume candle)))"

definition calculateVWAP :: "candle option list \<Rightarrow> error + real" where
  "calculateVWAP candles =
     (if length candles = 0 then Inr 0
      else and_then (vwap_forEach candles (0, 0)) (\<lambda>(cumulativeTPV, cumulativeVolume).
             Inr (if cumulativeVolume > 0 then cumulativeTPV / cumulativeVolume else 0)))"

text \<open>
  \<^verbatim>\<open>
  static calculateRSI(closes, period = 14) {
    if (!closes || closes.length < period + 1) return 50;
    try {
      const rsi = RSI.calculate({ values: closes, period: period });
      return rsi[rsi.length - 1] || 50;
    } catch (error) { return 50; }
  }
  \<close>
\<close>

definition calculateRSI :: "env \<Rightarrow> real list \<Rightarrow> nat \<Rightarrow> real" where
  "calculateRSI env closes period =
     (if length closes < period + 1 then 50
      else case RSI_calculate env closes period of
             Inl error \<Rightarrow> 50
           | Inr rsi \<Rightarrow> (if rsi = [] \<or> last rsi = 0 then 50 else last rsi))"

text \<open>
  \<^verbatim>\<open>
  static calculateBollingerBands(closes, period = 20, stdDev = 2) {
    if (!closes || closes.length < period) return null;
    try {
      const bb = BollingerBands.calculate({ values: closes, period: period, stdDev: stdDev });
      return bb[bb.length - 1] || null;
    } catch (error) { return null; }
  }
  \<close>
\<close>

definition calculateBollingerBands :: "env \<Rightarrow> real list \<Rightarrow> nat \<Rightarrow> real \<Rightarrow> bands option" where
  "calculateBollingerBands env closes period stdDev =
     (if length closes < period then None
      else case BollingerBands_calculate env closes period stdDev of
             Inl error \<Rightarrow> None
           | Inr bb \<Rightarrow> (if bb = [] then None else Some (last bb)))"

text \<open>
  \<^verbatim>\<open>
  Math.std = function(arr) {
    if (!arr || arr.length === 0) return 0;
    const mean = arr.reduce((a, b) => a + b, 0) / arr.length;
    return Math.sqrt(arr.reduce((sq, n) => sq + Math.pow(n - mean, 2), 0) / arr.length);
  };
  \<close>
\<close>

definition Math_std :: "real list \<Rightarrow> real" where
  "Math_std arr =
     (if length arr = 0 then 0
      else
        let mean = reduce_sum arr / real (length arr)
        in sqrt (foldl (\<lambda>sq n. sq + (n - mean) ^ 2) 0 arr / real (length arr)))"

section \<open>signal/detectors.js: the other six detectors\<close>

text \<open>
  Each detector has the shape of \<open>momentumBreakoutDetector\<close>: a \<open>try\<close> block that
  returns a verdict, and a \<open>catch\<close> block that returns the neutral verdict with the
  detector's name and \<^verbatim>\<open>`Error: ${error.message}`\<close>. Numbers that are only reported
  (metadata, the numbers inside a reason) are left as HOL computes them, also where
  JavaScript reports an infinity or NaN.
\<close>

subsection \<open>vwapPullbackDetector\<close>

text \<open>
  \<^verbatim>\<open>
  const candles1m = data['1m'] || [];
  const candles15m = data['15m'] || [];
  if (candles1m.length < 50 || candles15m.length < 20) return { ... 'Insufficient data' };
  const currentCandle1m = candles1m[candles1m.length - 1];
  const vwap = TradingUtils.calculateVWAP(candles1m.slice(-50));
  const currentPrice = currentCandle1m.close;
  const isAboveVWAP = currentPrice > vwap;
  const isNearVWAP = Math.abs(currentPrice - vwap) / vwap <= vwapDelta;
  const isBullishReversal = currentCandle1m.close > currentCandle1m.open &&
                            currentCandle1m.close > (currentCandle1m.high + currentCandle1m.low) / 2;
  const recentVolumes = candles1m.slice(-10).map(c => c.volume);
  const currentVolume = currentCandle1m.volume;
  const avgVolume = recentVolumes.reduce((a, b) => a + b, 0) / recentVolumes.length;
  const hasVolumeUptick = currentVolume > avgVolume * volumeUptick;
  if (isAboveVWAP && isNearVWAP && isBullishReversal && hasVolumeUptick) {
    const vwapDistance = ((currentPrice - vwap) / vwap) * 100;
    const volumeStrength = Math.min(currentVolume / avgVolume, 3) / 3 * 100;
    const reversalStrength = ((currentCandle1m.close - currentCandle1m.open) / currentCandle1m.open) * 10000;
    score = Math.min(100, Math.abs(vwapDistance) * 20 + volumeStrength * 0.3 + reversalStrength * 2);
    direction = 'LONG';
  }
  \<close>
  With \<open>vwap = 0\<close> the quotient in \<open>isNearVWAP\<close> is infinite or NaN and the test fails.
  Inside the branch, \<open>avgVolume = 0\<close> makes the volume ratio infinite (the current volume is
  then positive), and an open of \<open>0\<close> makes the reversal strength infinite (the close is then
  positive), so that the score is 100.
\<close>

definition vwapPullback_try :: "snapshot option \<Rightarrow> config \<Rightarrow> error + verdict" where
  "vwapPullback_try data cfg =
     and_then (timeframe ''1m'' tf1m data) (\<lambda>candles1m.
     and_then (timeframe ''15m'' tf15m data) (\<lambda>candles15m.
       if length candles1m < 50 \<or> length candles15m < 20 then Inr (neutral ''Insufficient data'')
       else
         and_then (calculateVWAP (slice_last 50 candles1m)) (\<lambda>vwap.
         case last candles1m of
           None \<Rightarrow> Inl (TypeError ''Cannot read properties of null (reading close)'')
         | Some currentCandle1m \<Rightarrow>
         and_then (map_prop ''volume'' volume (slice_last 10 candles1m)) (\<lambda>recentVolumes.
           let currentPrice = close currentCandle1m;
               isAboveVWAP = currentPrice > vwap;
               isNearVWAP = (vwap \<noteq> 0 \<and> \<bar>currentPrice - vwap\<bar> / vwap \<le> vwapDelta cfg);
               isBullishReversal =
                 (close currentCandle1m > c_open currentCandle1m
                  \<and> close currentCandle1m > (high currentCandle1m + low currentCandle1m) / 2);
               currentVolume = volume currentCandle1m;
               avgVolume = reduce_sum recentVolumes / real (length recentVolumes);
               hasVolumeUptick = currentVolume > avgVolume * volumeUptick cfg;
               vwapDistance = ((currentPrice - vwap) / vwap) * 100;
               (score0, direction0, reason0) =
                 (if isAboveVWAP \<and> isNearVWAP \<and> isBullishReversal \<and> hasVolumeUptick then
                    (let volumeStrength =
                           (if avgVolume = 0 then 3 else min (currentVolume / avgVolume) 3) / 3 * 100;
                         reversalStrength =
                           ((close currentCandle1m - c_open currentCandle1m) / c_open currentCandle1m)
                             * 10000
                     in (if c_open currentCandle1m = 0 then 100
                         else min 100 (\<bar>vwapDistance\<bar> * 20 + volumeStrength * 0.3 + reversalStrength * 2),
                         LONG,
                         Formatted ''VWAP pullback''
                           [toFixed 3 vwapDistance, toFixed 1 (currentVolume / avgVolume)]))
                  else (0, NEUTRAL, Plain ''No VWAP pullback setup''))
           in Inr \<lparr>name = Some ''vwap_pullback'',
                   score = Math_round score0,
                   direction = direction0,
                   reason = reason0,
                   metadata = Some
                     [(''vwap'', vwap), (''currentPrice'', currentPrice),
                      (''vwapDistance'', vwapDistance),
                      (''volumeRatio'', currentVolume / avgVolume)],
                   weight = None\<rparr>))))"

definition vwapPullbackDetector :: "snapshot option \<Rightarrow> config option \<Rightarrow> error + verdict" where
  "vwapPullbackDetector data config =
     destructure config (\<lambda>cfg.
       case vwapPullback_try data cfg of
         Inr v \<Rightarrow> v
       | Inl e \<Rightarrow> caught ''vwap_pullback'' e)"

subsection \<open>volatilitySqueezeDetector\<close>

text \<open>
  \<^verbatim>\<open>
  const historicalWidths = [];
  for (let i = bbPeriod; i < closes15m.length; i++) {
    const slice = closes15m.slice(i - bbPeriod, i);
    const historicalBB = TradingUtils.calculateBollingerBands(slice, bbPeriod, bbStdDev);
    if (historicalBB) {
      historicalWidths.push((historicalBB.upper - historicalBB.lower) / historicalBB.middle);
    }
  }
  \<close>
\<close>

definition historicalWidths :: "env \<Rightarrow> config \<Rightarrow> real list \<Rightarrow> real list" where
  "historicalWidths env cfg closes15m =
     concat (map (\<lambda>i.
        let slice = take (bbPeriod cfg) (drop (i - bbPeriod cfg) closes15m)
        in case calculateBollingerBands env slice (bbPeriod cfg) (bbStdDev cfg) of
             None \<Rightarrow> []
           | Some historicalBB \<Rightarrow>
               [(upper historicalBB - lower historicalBB) / middle historicalBB])
       [bbPeriod cfg ..< length closes15m])"

text \<open>
  \<^verbatim>\<open>
  const bbWidth = (bb.upper - bb.lower) / bb.middle;
  const sortedWidths = [...historicalWidths].sort((a, b) => a - b);
  const percentileIndex = Math.floor(sortedWidths.length * squeezePercentile / 100);
  const lowPercentileWidth = sortedWidths[percentileIndex] || 0;
  const isSqueeze = bbWidth <= lowPercentileWidth;
  const currentPrice = closes15m[closes15m.length - 1];
  const isAboveUpper = currentPrice > bb.upper;
  const isBelowLower = currentPrice < bb.lower;
  const volumes = candles15m.map(c => c.volume);
  const currentVolume = volumes[volumes.length - 1];
  const volumeZScore = TradingUtils.calculateZScore(currentVolume, volumes.slice(-20));
  if (isSqueeze && (isAboveUpper || isBelowLower) && volumeZScore > 0.5) {
    const squeezeStrength = (lowPercentileWidth - bbWidth) / lowPercentileWidth * 100;
    const volumeStrength = Math.min(volumeZScore, 3) / 3 * 100;
    score = Math.min(100, squeezeStrength * 0.5 + volumeStrength * 0.5);
    direction = isAboveUpper ? 'LONG' : 'SHORT';
  }
  \<close>
  The widths are quotients by the middle band, and \<open>squeezeStrength\<close> is a quotient by
  \<open>lowPercentileWidth\<close>; the model is exact where these are not zero.
\<close>

definition volatilitySqueeze_try :: "env \<Rightarrow> snapshot option \<Rightarrow> config \<Rightarrow> error + verdict" where
  "volatilitySqueeze_try env data cfg =
     and_then (timeframe ''15m'' tf15m data) (\<lambda>candles15m.
     and_then (timeframe ''1h'' tf1h data) (\<lambda>candles1h.
       if length candles15m < bbPeriod cfg + 10 then Inr (neutral ''Insufficient data'')
       else
         and_then (map_prop ''close'' close candles15m) (\<lambda>closes15m.
         case calculateBollingerBands env closes15m (bbPeriod cfg) (bbStdDev cfg) of
           None \<Rightarrow> Inr (neutral ''Cannot calculate Bollinger Bands'')
         | Some bb \<Rightarrow>
         and_then (map_prop ''volume'' volume candles15m) (\<lambda>volumes.
           let bbWidth = (upper bb - lower bb) / middle bb;
               sortedWidths = sort (historicalWidths env cfg closes15m);
               percentileIndex = \<lfloor>real (length sortedWidths) * squeezePercentile cfg / 100\<rfloor>;
               lowPercentileWidth =
                 (if 0 \<le> percentileIndex \<and> nat percentileIndex < length sortedWidths
                  then sortedWidths ! nat percentileIndex else 0);
               isSqueeze = bbWidth \<le> lowPercentileWidth;
               currentPrice = last closes15m;
               isAboveUpper = currentPrice > upper bb;
               isBelowLower = currentPrice < lower bb;
               currentVolume = last volumes;
               volumeZScore = calculateZScore currentVolume (slice_last 20 volumes);
               squeezeStrength = (lowPercentileWidth - bbWidth) / lowPercentileWidth * 100;
               (score0, direction0, reason0) =
                 (if isSqueeze \<and> (isAboveUpper \<or> isBelowLower) \<and> volumeZScore > 0.5 then
                    (let volumeStrength = min volumeZScore 3 / 3 * 100
                     in (min 100 (squeezeStrength * 0.5 + volumeStrength * 0.5),
                         if isAboveUpper then LONG else SHORT,
                         Formatted ''Volatility squeeze breakout'' [toFixed 2 volumeZScore]))
                  else (0, NEUTRAL, Plain ''No volatility squeeze setup''))
           in Inr \<lparr>name = Some ''volatility_squeeze'',
                   score = Math_round score0,
                   direction = direction0,
                   reason = reason0,
                   metadata = Some
                     [(''bbWidth'', bbWidth), (''lowPercentileWidth'', lowPercentileWidth),
                      (''squeezeStrength'', if isSqueeze then squeezeStrength else 0),
                      (''volumeZScore'', volumeZScore)],
                   weight = None\<rparr>))))"

definition volatilitySqueezeDetector :: "env \<Rightarrow> snapshot option \<Rightarrow> config option \<Rightarrow> error + verdict" where
  "volatilitySqueezeDetector env data config =
     destructure config (\<lambda>cfg.
       case volatilitySqueeze_try env data cfg of
         Inr v \<Rightarrow> v
       | Inl e \<Rightarrow> caught ''volatility_squeeze'' e)"

subsection \<open>orderbookSweepDetector\<close>

text \<open>
  \<^verbatim>\<open>
  static orderbookSweepDetector(data, config = {}) {
    try {
      const orderbook = data.orderbook;
      if (!orderbook) return { score: 0, direction: 'NEUTRAL', reason: 'No orderbook data' };
      const { bids, asks, volumeImbalance } = orderbook;
      if (!bids || !asks || bids.length === 0 || asks.length === 0)
        return { score: 0, direction: 'NEUTRAL', reason: 'Invalid orderbook data' };
      const bidVolume = bids.slice(0, 3).reduce((sum, [price, volume]) => sum + volume, 0);
      const askVolume = asks.slice(0, 3).reduce((sum, [price, volume]) => sum + volume, 0);
      const imbalance = (bidVolume - askVolume) / (bidVolume + askVolume);
      if (imbalance > 0.3) {
        score = Math.min(100, imbalance * 150); direction = 'LONG';
      } else if (imbalance < -0.3) {
        score = Math.min(100, Math.abs(imbalance) * 150); direction = 'SHORT';
      }
      return { name: 'orderbook_sweep', score: Math.round(score), direction, reason,
               metadata: { bidVolume, askVolume, volumeImbalance: imbalance } };
    } catch (error) { ... }
  }
  \<close>
  This detector does not destructure its configuration, so a \<open>null\<close> configuration does
  not make it throw. When \<open>bidVolume + askVolume = 0\<close> the imbalance is \<open>+Infinity\<close>,
  \<open>-Infinity\<close> or NaN by the sign of the numerator; the first two take a branch with
  score 100.
\<close>

definition orderbookSweep_try :: "snapshot option \<Rightarrow> error + verdict" where
  "orderbookSweep_try data =
     (case data of
        None \<Rightarrow> Inl (TypeError ''Cannot read properties of null (reading orderbook)'')
      | Some d \<Rightarrow>
     (case book d of
        None \<Rightarrow> Inr (neutral ''No orderbook data'')
      | Some ob \<Rightarrow>
     (case (bids ob, asks ob) of
        (Some bs, Some as) \<Rightarrow>
          if length bs = 0 \<or> length as = 0 then Inr (neutral ''Invalid orderbook data'')
          else
            let bidVolume = foldl (\<lambda>sum (price, volume). sum + volume) 0 (take 3 bs);
                askVolume = foldl (\<lambda>sum (price, volume). sum + volume) 0 (take 3 as);
                imbalance = (bidVolume - askVolume) / (bidVolume + askVolume);
                plusInf = (bidVolume + askVolume = 0 \<and> bidVolume - askVolume > 0);
                minusInf = (bidVolume + askVolume = 0 \<and> bidVolume - askVolume < 0);
                (score0, direction0, reason0) =
                  (if plusInf \<or> (bidVolume + askVolume \<noteq> 0 \<and> imbalance > 0.3) then
                     (if plusInf then 100 else min 100 (imbalance * 150),
                      LONG,
                      Formatted ''Strong buy pressure'' [toFixed 1 (imbalance * 100)])
                   else if minusInf \<or> (bidVolume + askVolume \<noteq> 0 \<and> imbalance < - 0.3) then
                     (if minusInf then 100 else min 100 (\<bar>imbalance\<bar> * 150),
                      SHORT,
                      Formatted ''Strong sell pressure'' [toFixed 1 (\<bar>imbalance\<bar> * 100)])
                   else (0, NEUTRAL, Plain ''No significant orderbook imbalance''))
            in Inr \<lparr>name = Some ''orderbook_sweep'',
                    score = Math_round score0,
                    direction = direction0,
                    reason = reason0,
                    metadata = Some
                      [(''bidVolume'', bidVolume), (''askVolume'', askVolume),
                       (''volumeImbalance'', imbalance)],
                    weight = None\<rparr>
      | _ \<Rightarrow> Inr (neutral ''Invalid orderbook data''))))"

definition orderbookSweepDetector :: "snapshot option \<Rightarrow> config option \<Rightarrow> error + verdict" where
  "orderbookSweepDetector data config =
     Inr (case orderbookSweep_try data of
            Inr v \<Rightarrow> v
          | Inl e \<Rightarrow> caught ''orderbook_sweep'' e)"

subsection \<open>volumeSpikeDetector\<close>

text \<open>
  \<^verbatim>\<open>
  const candles15m = data['15m'] || [];
  if (candles15m.length < 20) return { ... 'Insufficient data' };
  const volumes = candles15m.map(c => c.volume);
  const closes = candles15m.map(c => c.close);
  const currentVolume = volumes[volumes.length - 1];
  const currentClose = closes[closes.length - 1];
  const prevClose = closes[closes.length - 2];
  const volumeZScore = TradingUtils.calculateZScore(currentVolume, volumes.slice(-20));
  const priceChange = (currentClose - prevClose) / prevClose * 100;
  const isBullishCandle = currentClose > prevClose;
  const isBearishCandle = currentClose < prevClose;
  if (volumeZScore > volumeZScoreThreshold) {
    if (isBullishCandle) {
      score = Math.min(100, volumeZScore * 20 + Math.max(priceChange, 0) * 10); direction = 'LONG';
    } else if (isBearishCandle) {
      score = Math.min(100, volumeZScore * 20 + Math.max(Math.abs(priceChange), 0) * 10);
      direction = 'SHORT';
    } else { reason = `Volume spike (z: ...) but no clear direction`; }
  }
  \<close>
  A previous close of \<open>0\<close> makes \<open>priceChange\<close> infinite in JavaScript; the model assumes
  prices that are not zero there.
\<close>

definition volumeSpike_try :: "snapshot option \<Rightarrow> config \<Rightarrow> error + verdict" where
  "volumeSpike_try data cfg =
     and_then (timeframe ''15m'' tf15m data) (\<lambda>candles15m.
       if length candles15m < 20 then Inr (neutral ''Insufficient data'')
       else
         and_then (map_prop ''volume'' volume candles15m) (\<lambda>volumes.
         and_then (map_prop ''close'' close candles15m) (\<lambda>closes.
           let currentVolume = last volumes;
               currentClose = last closes;
               prevClose = closes ! (length closes - 2);
               volumeZScore = calculateZScore currentVolume (slice_last 20 volumes);
               priceChange = (currentClose - prevClose) / prevClose * 100;
               isBullishCandle = currentClose > prevClose;
               isBearishCandle = currentClose < prevClose;
               (score0, direction0, reason0) =
                 (if volumeZScore > volumeZScoreThreshold cfg then
                    (if isBullishCandle then
                       (min 100 (volumeZScore * 20 + max priceChange 0 * 10),
                        LONG,
                        Formatted ''Bullish volume spike''
                          [toFixed 2 volumeZScore, toFixed 2 priceChange])
                     else if isBearishCandle then
                       (min 100 (volumeZScore * 20 + max \<bar>priceChange\<bar> 0 * 10),
                        SHORT,
                        Formatted ''Bearish volume spike''
                          [toFixed 2 volumeZScore, toFixed 2 priceChange])
                     else
                       (0, NEUTRAL,
                        Formatted ''Volume spike but no clear direction'' [toFixed 2 volumeZScore]))
                  else (0, NEUTRAL, Plain ''No significant volume spike''))
           in Inr \<lparr>name = Some ''volume_spike'',
                   score = Math_round score0,
                   direction = direction0,
                   reason = reason0,
                   metadata = Some
                     [(''volumeZScore'', volumeZScore), (''priceChange'', priceChange),
                      (''currentVolume'', currentVolume)],
                   weight = None\<rparr>)))"

definition volumeSpikeDetector :: "snapshot option \<Rightarrow> config option \<Rightarrow> error + verdict" where
  "volumeSpikeDetector data config =
     destructure config (\<lambda>cfg.
       case volumeSpike_try data cfg of
         Inr v \<Rightarrow> v
       | Inl e \<Rightarrow> caught ''volume_spike'' e)"

subsection \<open>rsiMomentumDetector\<close>

text \<open>
  \<^verbatim>\<open>
  const candles15m = data['15m'] || [];
  const candles1h = data['1h'] || [];
  if (candles15m.length < 15 || candles1h.length < 15) return { ... 'Insufficient data' };
  const closes15m = candles15m.map(c => c.close);
  const closes1h = candles1h.map(c => c.close);
  const rsi15m = TradingUtils.calculateRSI(closes15m, 14);
  const rsi1h = TradingUtils.calculateRSI(closes1h, 14);
  if (rsi15m < rsiOversold && rsi1h < rsiOversold) {
    score = Math.min(100, (rsiOversold - rsi15m) * 3); direction = 'LONG';
  } else if (rsi15m > rsiOverbought && rsi1h > rsiOverbought) {
    score = Math.min(100, (rsi15m - rsiOverbought) * 3); direction = 'SHORT';
  }
  \<close>
\<close>

definition rsiMomentum_try :: "env \<Rightarrow> snapshot option \<Rightarrow> config \<Rightarrow> error + verdict" where
  "rsiMomentum_try env data cfg =
     and_then (timeframe ''15m'' tf15m data) (\<lambda>candles15m.
     and_then (timeframe ''1h'' tf1h data) (\<lambda>candles1h.
       if length candles15m < 15 \<or> length candles1h < 15 then Inr (neutral ''Insufficient data'')
       else
         and_then (map_prop ''close'' close candles15m) (\<lambda>closes15m.
         and_then (map_prop ''close'' close candles1h) (\<lambda>closes1h.
           let rsi15m = calculateRSI env closes15m 14;
               rsi1h = calculateRSI env closes1h 14;
               (score0, direction0, reason0) =
                 (if rsi15m < rsiOversold cfg \<and> rsi1h < rsiOversold cfg then
                    (min 100 ((rsiOversold cfg - rsi15m) * 3),
                     LONG,
                     Formatted ''Oversold'' [toFixed 1 rsi15m, toFixed 1 rsi1h])
                  else if rsi15m > rsiOverbought cfg \<and> rsi1h > rsiOverbought cfg then
                    (min 100 ((rsi15m - rsiOverbought cfg) * 3),
                     SHORT,
                     Formatted ''Overbought'' [toFixed 1 rsi15m, toFixed 1 rsi1h])
                  else (0, NEUTRAL, Plain ''RSI in neutral zone''))
           in Inr \<lparr>name = Some ''rsi_momentum'',
                   score = Math_round score0,
                   direction = direction0,
                   reason = reason0,
                   metadata = Some [(''rsi15m'', rsi15m), (''rsi1h'', rsi1h)],
                   weight = None\<rparr>))))"

definition rsiMomentumDetector :: "env \<Rightarrow> snapshot option \<Rightarrow> config option \<Rightarrow> error + verdict" where
  "rsiMomentumDetector env data config =
     destructure config (\<lambda>cfg.
       case rsiMomentum_try env data cfg of
         Inr v \<Rightarrow> v
       | Inl e \<Rightarrow> caught ''rsi_momentum'' e)"

subsection \<open>correlationBreakDetector\<close>

text \<open>
  \<^verbatim>\<open>
  const priceChanges = [];
  for (let i = 1; i < candles1h.length; i++) {
    const change = (candles1h[i].close - candles1h[i-1].close) / candles1h[i-1].close;
    priceChanges.push(change);
  }
  \<close>
  The model is exact where no close is zero.
\<close>

fun priceChanges :: "candle option list \<Rightarrow> error + real list" where
  "priceChanges (prev # cur # rest) =
     and_then (read_prop ''close'' close cur) (\<lambda>c.
     and_then (read_prop ''close'' close prev) (\<lambda>p.
     and_then (priceChanges (cur # rest)) (\<lambda>changes.
       Inr ((c - p) / p # changes))))"
| "priceChanges _ = Inr []"

text \<open>
  \<^verbatim>\<open>
  static correlationBreakDetector(data, config = {}) {
    try {
      const candles1h = data['1h'] || [];
      if (candles1h.length < 10)
        return { score: 0, direction: 'NEUTRAL', reason: 'Insufficient data for correlation analysis' };
      ...
      const recentVolatility = Math.std(priceChanges.slice(-5)) * 100;
      const historicalVolatility = Math.std(priceChanges) * 100;
      if (recentVolatility > historicalVolatility * 2) {
        score = Math.min(100, (recentVolatility / historicalVolatility) * 25);
        direction = Math.random() > 0.5 ? 'LONG' : 'SHORT';
        reason = `High volatility spike: ...`;
      }
      return { name: 'correlation_break', score: Math.round(score), direction, reason,
               metadata: { recentVolatility, historicalVolatility } };
    } catch (error) { ... }
  }
  \<close>
  No destructuring of the configuration here either. A historical volatility of \<open>0\<close> means
  that all changes are equal, so the recent one is \<open>0\<close> too and the branch is not taken.
\<close>

definition correlationBreak_try :: "env \<Rightarrow> snapshot option \<Rightarrow> error + verdict" where
  "correlationBreak_try env data =
     and_then (timeframe ''1h'' tf1h data) (\<lambda>candles1h.
       if length candles1h < 10 then Inr (neutral ''Insufficient data for correlation analysis'')
       else
         and_then (priceChanges candles1h) (\<lambda>priceChanges.
           let recentVolatility = Math_std (slice_last 5 priceChanges) * 100;
               historicalVolatility = Math_std priceChanges * 100;
               (score0, direction0, reason0) =
                 (if recentVolatility > historicalVolatility * 2 then
                    (min 100 ((recentVolatility / historicalVolatility) * 25),
                     if Math_random env > 0.5 then LONG else SHORT,
                     Formatted ''High volatility spike''
                       [toFixed 2 recentVolatility, toFixed 2 historicalVolatility])
                  else (0, NEUTRAL, Plain ''Normal volatility''))
           in Inr \<lparr>name = Some ''correlation_break'',
                   score = Math_round score0,
                   direction = direction0,
                   reason = reason0,
                   metadata = Some
                     [(''recentVolatility'', recentVolatility),
                      (''historicalVolatility'', historicalVolatility)],
                   weight = None\<rparr>))"

definition correlationBreakDetector :: "env \<Rightarrow> snapshot option \<Rightarrow> config option \<Rightarrow> error + verdict" where
  "correlationBreakDetector env data config =
     Inr (case correlationBreak_try env data of
            Inr v \<Rightarrow> v
          | Inl e \<Rightarrow> caught ''correlation_break'' e)"

section \<open>signal/detectors.js: runAllDetectors\<close>

text \<open>
  \<^verbatim>\<open>
  static async runAllDetectors(data, config = {}) {
    const detectors = [
      { fn: this.momentumBreakoutDetector, weight: 1.2 },
      { fn: this.vwapPullbackDetector, weight: 1.1 },
      { fn: this.volatilitySqueezeDetector, weight: 1.0 },
      { fn: this.orderbookSweepDetector, weight: 0.9 },
      { fn: this.rsiMomentumDetector, weight: 1.0 },
      { fn: this.volumeSpikeDetector, weight: 1.0 },
      { fn: this.correlationBreakDetector, weight: 0.7 }
    ];
    const results = [];
    for (const detector of detectors) {
      try {
        const result = detector.fn(data, config);
        results.push({ ...result, weight: detector.weight });
      } catch (error) {
        results.push({
          name: detector.fn.name.replace('Detector', '').toLowerCase(),
          score: 0, direction: 'NEUTRAL',
          reason: `Detector error: ${error.message}`,
          weight: detector.weight });
      }
    }
    return results;
  }
  \<close>
  Each entry of \<open>detectors\<close> carries, next to the function and the weight, the string that
  \<^verbatim>\<open>fn.name.replace('Detector', '').toLowerCase()\<close> evaluates to for it. The result is the
  array the returned promise resolves to.
\<close>

definition detectors ::
  "(string \<times> (env \<Rightarrow> snapshot option \<Rightarrow> config option \<Rightarrow> error + verdict) \<times> real) list" where
  "detectors =
     [(''momentumbreakout'', (\<lambda>env. momentumBreakoutDetector), 1.2),
      (''vwappullback'', (\<lambda>env. vwapPullbackDetector), 1.1),
      (''volatilitysqueeze'', volatilitySqueezeDetector, 1.0),
      (''orderbooksweep'', (\<lambda>env. orderbookSweepDetector), 0.9),
      (''rsimomentum'', rsiMomentumDetector, 1.0),
      (''volumespike'', (\<lambda>env. volumeSpikeDetector), 1.0),
      (''correlationbreak'', correlationBreakDetector, 0.7)]"

text \<open>The verdict pushed by the \<open>catch\<close> block of the loop.\<close>

definition caught_by_suite :: "string \<Rightarrow> error \<Rightarrow> real \<Rightarrow> verdict" where
  "caught_by_suite lowered e w =
     \<lparr>name = Some lowered, score = 0, direction = NEUTRAL,
      reason = DetectorError (message e), metadata = None, weight = Some w\<rparr>"

definition runAllDetectors :: "env \<Rightarrow> snapshot option \<Rightarrow> config option \<Rightarrow> verdict list" where
  "runAllDetectors env data config =
     map (\<lambda>(lowered, fn, w).
        case fn env data config of
          Inr result \<Rightarrow> result\<lparr>weight := Some w\<rparr>
        | Inl error \<Rightarrow> caught_by_suite lowered error w)
       detectors"

section \<open>utils.js: calculateATR\<close>

text \<open>
  \<^verbatim>\<open>
  static calculateATR(candles, period = 14) {
    if (!candles || candles.length < period + 1) return 0;
    const trValues = [];
    for (let i = 1; i < candles.length; i++) {
      const tr = Math.max(
        candles[i].high - candles[i].low,
        Math.abs(candles[i].high - candles[i-1].close),
        Math.abs(candles[i].low - candles[i-1].close));
      trValues.push(tr);
    }
    let atr = trValues.slice(0, period).reduce((a, b) => a + b, 0) / period;
    for (let i = period; i < trValues.length; i++) {
      atr = (atr * (period - 1) + trValues[i]) / period;
    }
    return atr;
  }
  \<close>
\<close>

fun trValues :: "candle option list \<Rightarrow> error + real list" where
  "trValues (prev # cur # rest) =
     (case cur of
        None \<Rightarrow> Inl (TypeError ''Cannot read properties of null (reading high)'')
      | Some c \<Rightarrow>
     (case prev of
        None \<Rightarrow> Inl (TypeError ''Cannot read properties of null (reading close)'')
      | Some p \<Rightarrow>
          and_then (trValues (cur # rest)) (\<lambda>rest_tr.
            Inr (max (high c - low c) (max \<bar>high c - close p\<bar> \<bar>low c - close p\<bar>) # rest_tr))))"
| "trValues _ = Inr []"

definition calculateATR :: "candle option list \<Rightarrow> nat \<Rightarrow> error + real" where
  "calculateATR candles period =
     (if length candles < period + 1 then Inr 0
      else
        and_then (trValues candles) (\<lambda>tr.
          Inr (foldl (\<lambda>atr t. (atr * (real period - 1) + t) / real period)
                 (reduce_sum (take period tr) / real period)
                 (drop period tr))))"

section \<open>The ensemble: data\<close>

text \<open>
  The repository holds two versions of \<open>class EnsembleAI\<close>. The one headed
  \<open>AI Ensemble Logic - SIMPLIFIED AND STABLE\<close> is modelled with the suffix
  \<open>_simplified\<close>; the one headed \<open>AI Ensemble Logic - Combines multiple detectors for
  final signal\<close>, which has the detector weights of the configuration, the detector
  families and the time-of-day multiplier, with the suffix \<open>_full\<close>.

  \<open>this.config\<close> after the constructor has run:
\<close>

record ensemble_config =
  minConfidence :: real
  minDetectorAgreement :: nat
  detectorWeights :: "string \<rightharpoonup> real"
  timeOfDayMultipliers :: "(string \<times> real) list"

text \<open>The defaults of the constructor of the full version.\<close>

definition default_detectorWeights :: "string \<rightharpoonup> real" where
  "default_detectorWeights =
     [''momentum_breakout'' \<mapsto> 1.2, ''vwap_pullback'' \<mapsto> 1.1, ''volatility_squeeze'' \<mapsto> 1.0,
      ''orderbook_sweep'' \<mapsto> 0.9, ''funding_oi_divergence'' \<mapsto> 0.8, ''volume_spike'' \<mapsto> 1.0,
      ''correlation_break'' \<mapsto> 0.7]"

definition default_timeOfDayMultipliers :: "(string \<times> real) list" where
  "default_timeOfDayMultipliers =
     [(''04-10'', 1.1), (''10-16'', 1.0), (''16-20'', 0.9), (''20-23'', 0.8), (''23-04'', 0.3)]"

definition default_ensemble_config :: ensemble_config where
  "default_ensemble_config =
     \<lparr>minConfidence = 60, minDetectorAgreement = 2,
      detectorWeights = default_detectorWeights,
      timeOfDayMultipliers = default_timeOfDayMultipliers\<rparr>"

text \<open>
  The agreement statistics. \<open>directions\<close> is the object \<^verbatim>\<open>{ LONG: 0, SHORT: 0, NEUTRAL: 0 }\<close>
  with its counters; the full version adds two fields.
\<close>

record agreement =
  directions :: "direction \<Rightarrow> nat"
  majorityDirection :: direction
  majorityCount :: nat

record agreement_full = agreement +
  totalDirectional :: nat
  agreementRatio :: real

text \<open>
  \<^verbatim>\<open>
  const majorityDirection = Object.entries(directions)
    .filter(([dir]) => dir !== 'NEUTRAL')
    .sort(([,a], [,b]) => b - a)[0];
  \<close>
  The entries come in the order the keys were written, and the sort is stable: descending
  by count, \<open>LONG\<close> before \<open>SHORT\<close> on a tie. Both versions have these lines.
\<close>

definition majorityEntry :: "(direction \<Rightarrow> nat) \<Rightarrow> (direction \<times> nat) option" where
  "majorityEntry counts =
     (case sort_key (\<lambda>(dir, n). - int n)
             (filter (\<lambda>(dir, n). dir \<noteq> NEUTRAL)
                [(LONG, counts LONG), (SHORT, counts SHORT), (NEUTRAL, counts NEUTRAL)])
      of [] \<Rightarrow> None
       | entry # _ \<Rightarrow> Some entry)"

record levels =
  entry :: real
  sl :: real
  tp :: real
  rr :: real

datatype decision_direction = Trade direction | NO_TRADE

record explain =
  explain_detectorResults :: "verdict list"
  explain_agreement :: agreement
  explain_metaScore :: real

record decision =
  decided :: decision_direction
  confidence :: real
  decision_reason :: reason
  decision_levels :: "levels option"
  decision_explain :: explain

section \<open>The ensemble, simplified version\<close>

text \<open>
  \<^verbatim>\<open>
  calculateDetectorAgreement(detectorResults) {
    const directions = { LONG: 0, SHORT: 0, NEUTRAL: 0 };
    detectorResults.forEach(detector => {
      if (detector.direction !== 'NEUTRAL' && detector.score > 40) {
        directions[detector.direction]++;
      }
    });
    const majorityDirection = ...;
    return { directions,
             majorityDirection: majorityDirection ? majorityDirection[0] : 'NEUTRAL',
             majorityCount: majorityDirection ? majorityDirection[1] : 0 };
  }
  \<close>
\<close>

definition tally_simplified :: "verdict list \<Rightarrow> direction \<Rightarrow> nat" where
  "tally_simplified detectorResults =
     foldl (\<lambda>directions detector.
              if direction detector \<noteq> NEUTRAL \<and> score detector > 40
              then directions(direction detector := directions (direction detector) + 1)
              else directions)
       (\<lambda>dir. 0) detectorResults"

definition calculateDetectorAgreement_simplified :: "verdict list \<Rightarrow> agreement" where
  "calculateDetectorAgreement_simplified detectorResults =
     (let directions = tally_simplified detectorResults;
          majorityDirection = majorityEntry directions
      in \<lparr>directions = directions,
          majorityDirection = (case majorityDirection of Some (dir, n) \<Rightarrow> dir | None \<Rightarrow> NEUTRAL),
          majorityCount = (case majorityDirection of Some (dir, n) \<Rightarrow> n | None \<Rightarrow> 0)\<rparr>)"

text \<open>
  \<^verbatim>\<open>
  calculateMetaScore(detectorResults, agreement) {
    if (agreement.majorityCount < this.config.minDetectorAgreement) return 0;
    let totalScore = 0; let count = 0;
    detectorResults.forEach(detector => {
      if (detector.direction === agreement.majorityDirection && detector.score > 40) {
        totalScore += detector.score * (detector.weight || 1.0);
        count++;
      }
    });
    if (count === 0) return 0;
    let metaScore = totalScore / count;
    const agreementBonus = (agreement.majorityCount - 1) * 10;
    metaScore += Math.min(20, agreementBonus);
    return Math.min(100, metaScore);
  }
  \<close>
\<close>

definition weight_or_1 :: "verdict \<Rightarrow> real" where
  "weight_or_1 detector = (case weight detector of None \<Rightarrow> 1.0 | Some w \<Rightarrow> if w = 0 then 1.0 else w)"

definition calculateMetaScore_simplified ::
  "ensemble_config \<Rightarrow> verdict list \<Rightarrow> 'a agreement_scheme \<Rightarrow> real" where
  "calculateMetaScore_simplified cfg detectorResults agreement =
     (if majorityCount agreement < minDetectorAgreement cfg then 0
      else
        let (totalScore, count) =
              foldl (\<lambda>(totalScore, count) detector.
                       if direction detector = majorityDirection agreement \<and> score detector > 40
                       then (totalScore + score detector * weight_or_1 detector, count + 1)
                       else (totalScore, count))
                (0, 0 :: nat) detectorResults
        in if count = 0 then 0
           else
             let metaScore = totalScore / real count;
                 agreementBonus = (real (majorityCount agreement) - 1) * 10
             in min 100 (metaScore + min 20 agreementBonus))"

text \<open>
  \<^verbatim>\<open>
  generateDefaultLevels(direction, currentPrice) {
    const riskPercent = 0.02; // 2% risk
    const stopLoss = direction === 'LONG'
      ? currentPrice * (1 - riskPercent) : currentPrice * (1 + riskPercent);
    const risk = Math.abs(currentPrice - stopLoss);
    const takeProfit = direction === 'LONG'
      ? currentPrice + risk * 1.8 : currentPrice - risk * 1.8;
    const rrRatio = Math.abs(takeProfit - currentPrice) / risk;
    return { entry: parseFloat(currentPrice.toFixed(4)), sl: parseFloat(stopLoss.toFixed(4)),
             tp: parseFloat(takeProfit.toFixed(4)), rr: rrRatio.toFixed(2) };
  }
  \<close>
  \<open>rr\<close> is a decimal string in the source; the model keeps the number. The parameter
  \<open>direction\<close> is written \<open>dir\<close>. With a risk of
  \<open>0\<close> (a current price of \<open>0\<close>) the ratio is NaN in JavaScript, which the model does not
  represent.
\<close>

definition generateDefaultLevels :: "direction \<Rightarrow> real \<Rightarrow> levels" where
  "generateDefaultLevels dir currentPrice =
     (let riskPercent = 0.02;
          stopLoss = (if dir = LONG then currentPrice * (1 - riskPercent)
                      else currentPrice * (1 + riskPercent));
          risk = \<bar>currentPrice - stopLoss\<bar>;
          takeProfit = (if dir = LONG then currentPrice + risk * 1.8
                        else currentPrice - risk * 1.8);
          rrRatio = \<bar>takeProfit - currentPrice\<bar> / risk
      in \<lparr>entry = toFixed 4 currentPrice, sl = toFixed 4 stopLoss,
          tp = toFixed 4 takeProfit, rr = toFixed 2 rrRatio\<rparr>)"

text \<open>
  \<^verbatim>\<open>
  generateLevels(direction, currentPrice, data) {
    const candles15m = data['15m'] || [];
    if (candles15m.length < 10) return this.generateDefaultLevels(direction, currentPrice);
    const atr = TradingUtils.calculateATR(candles15m);
    const volatilityAdjustedATR = atr * currentPrice;
    const entryPrice = currentPrice;
    const slDistance = volatilityAdjustedATR * 0.8;
    const stopLoss = direction === 'LONG' ? entryPrice - slDistance : entryPrice + slDistance;
    const risk = Math.abs(entryPrice - stopLoss);
    const takeProfit = direction === 'LONG' ? entryPrice + risk * 1.8 : entryPrice - risk * 1.8;
    const rrRatio = Math.abs(takeProfit - entryPrice) / risk;
    return { entry: ..., sl: ..., tp: ..., rr: rrRatio.toFixed(2) };
  }
  \<close>
  The snapshot of the ensemble functions is an object: they read \<open>data['15m']\<close> without a
  guard, and a \<open>null\<close> snapshot is excluded by the type here.
\<close>

definition generateLevels_simplified :: "direction \<Rightarrow> real \<Rightarrow> snapshot \<Rightarrow> error + levels" where
  "generateLevels_simplified dir currentPrice data =
     (let candles15m = (case tf15m data of None \<Rightarrow> [] | Some cs \<Rightarrow> cs)
      in if length candles15m < 10 then Inr (generateDefaultLevels dir currentPrice)
         else
           and_then (calculateATR candles15m 14) (\<lambda>atr.
             let volatilityAdjustedATR = atr * currentPrice;
                 entryPrice = currentPrice;
                 slDistance = volatilityAdjustedATR * 0.8;
                 stopLoss = (if dir = LONG then entryPrice - slDistance
                             else entryPrice + slDistance);
                 risk = \<bar>entryPrice - stopLoss\<bar>;
                 takeProfit = (if dir = LONG then entryPrice + risk * 1.8
                               else entryPrice - risk * 1.8);
                 rrRatio = \<bar>takeProfit - entryPrice\<bar> / risk
             in Inr \<lparr>entry = toFixed 4 entryPrice, sl = toFixed 4 stopLoss,
                     tp = toFixed 4 takeProfit, rr = toFixed 2 rrRatio\<rparr>))"

text \<open>
  \<^verbatim>\<open>
  const currentPrice = data['15m']?.[data['15m'].length - 1]?.close || data.ticker?.last || 0;
  \<close>
  \<open>||\<close> passes over \<open>undefined\<close> and over \<open>0\<close>.
\<close>

definition currentPrice_simplified :: "snapshot \<Rightarrow> real" where
  "currentPrice_simplified data =
     (let lastClose =
            (case tf15m data of
               None \<Rightarrow> None
             | Some cs \<Rightarrow> if cs = [] then None else map_option close (last cs));
          tickerLast = (case ticker_last data of None \<Rightarrow> 0 | Some l \<Rightarrow> l)
      in case lastClose of
           None \<Rightarrow> tickerLast
         | Some c \<Rightarrow> if c = 0 then tickerLast else c)"

text \<open>
  \<^verbatim>\<open>
  async analyze(detectorResults, data) {
    const agreement = this.calculateDetectorAgreement(detectorResults);
    const metaScore = this.calculateMetaScore(detectorResults, agreement);
    const currentPrice = ...;
    if (metaScore >= this.config.minConfidence
        && agreement.majorityCount >= this.config.minDetectorAgreement) {
      const levels = this.generateLevels(agreement.majorityDirection, currentPrice, data);
      return { direction: agreement.majorityDirection, confidence: Math.round(metaScore),
               reason: `${agreement.majorityCount} detectors agree, ${Math.round(metaScore)}% confidence`,
               levels,
               explain: { detectorResults: detectorResults.map(d => ({
                            name: d.name, score: d.score, direction: d.direction, reason: d.reason })),
                          agreement, metaScore } };
    }
    return { direction: 'NO_TRADE', confidence: Math.round(metaScore),
             reason: `Insufficient agreement: ${agreement.majorityCount} detectors, ${Math.round(metaScore)}% confidence`,
             explain: { detectorResults, agreement, metaScore } };
  }
  \<close>
  The result is the value the promise resolves to, or the exception it is rejected with
  (\<open>calculateATR\<close> throws on a \<open>null\<close> candle).
\<close>

definition analyze_simplified :: "ensemble_config \<Rightarrow> verdict list \<Rightarrow> snapshot \<Rightarrow> error + decision" where
  "analyze_simplified cfg detectorResults data =
     (let agreement = calculateDetectorAgreement_simplified detectorResults;
          metaScore = calculateMetaScore_simplified cfg detectorResults agreement;
          currentPrice = currentPrice_simplified data
      in if metaScore \<ge> minConfidence cfg \<and> majorityCount agreement \<ge> minDetectorAgreement cfg then
           and_then (generateLevels_simplified (majorityDirection agreement) currentPrice data)
             (\<lambda>levels.
                Inr \<lparr>decided = Trade (majorityDirection agreement),
                     confidence = Math_round metaScore,
                     decision_reason =
                       Formatted ''detectors agree''
                         [real (majorityCount agreement), Math_round metaScore],
                     decision_levels = Some levels,
                     decision_explain =
                       \<lparr>explain_detectorResults =
                          map (\<lambda>d. \<lparr>name = name d, score = score d, direction = direction d,
                                     reason = reason d, metadata = None, weight = None\<rparr>)
                            detectorResults,
                        explain_agreement = agreement,
                        explain_metaScore = metaScore\<rparr>\<rparr>)
         else
           Inr \<lparr>decided = NO_TRADE,
                confidence = Math_round metaScore,
                decision_reason =
                  Formatted ''Insufficient agreement''
                    [real (majorityCount agreement), Math_round metaScore],
                decision_levels = None,
                decision_explain =
                  \<lparr>explain_detectorResults = detectorResults,
                   explain_agreement = agreement,
                   explain_metaScore = metaScore\<rparr>\<rparr>)"

section \<open>The ensemble, full version\<close>

text \<open>
  \<^verbatim>\<open>str.split(sep)\<close> for a separator of one character: the pieces between the
  separators, at least one piece.
\<close>

fun split :: "char \<Rightarrow> string \<Rightarrow> string list" where
  "split sep [] = [[]]"
| "split sep (c # cs) =
     (if c = sep then [] # split sep cs
      else case split sep cs of
             piece # pieces \<Rightarrow> (c # piece) # pieces
           | [] \<Rightarrow> [[c]])"

text \<open>
  \<^verbatim>\<open>Number(s)\<close> for a piece of a range key. The model covers the pieces written with
  decimal digits (and the empty piece, which is \<open>0\<close>); every other piece is NaN here,
  \<open>None\<close>. That is what JavaScript gives for text that is not a numeric literal; signed,
  fractional, hexadecimal and exponent literals and surrounding white space are outside
  the model.
\<close>

fun index_of :: "'a \<Rightarrow> 'a list \<Rightarrow> nat option" where
  "index_of x [] = None"
| "index_of x (y # ys) = (if x = y then Some 0 else map_option Suc (index_of x ys))"

definition digit_value :: "char \<Rightarrow> nat option" where
  "digit_value c = index_of c ''0123456789''"

fun Number_from :: "nat \<Rightarrow> string \<Rightarrow> nat option" where
  "Number_from acc [] = Some acc"
| "Number_from acc (c # cs) =
     (case digit_value c of
        None \<Rightarrow> None
      | Some d \<Rightarrow> Number_from (10 * acc + d) cs)"

definition Number :: "string \<Rightarrow> nat option" where
  "Number s = Number_from 0 s"

text \<open>
  \<^verbatim>\<open>
  getTimeOfDayMultiplier() {
    const now = TradingUtils.getVietnamTime();
    const hour = now.hours();
    for (const [range, multiplier] of Object.entries(this.config.timeOfDayMultipliers)) {
      const [start, end] = range.split('-').map(Number);
      if (start <= hour && hour < end) {
        return multiplier;
      }
      // Handle overnight case (23-04)
      else if (start > end && (hour >= start || hour < end)) {
        return multiplier;
      }
    }
    return 1.0;
  }
  \<close>
  The hour of the clock is a parameter; \<open>range\<close> and \<open>end\<close> are written \<open>key\<close> and
  \<open>finish\<close>. A missing second piece is \<open>undefined\<close>, which compares like NaN: every
  comparison with it is false.
\<close>

definition range_bounds :: "string \<Rightarrow> nat option \<times> nat option" where
  "range_bounds key =
     (case map Number (split CHR ''-'' key) of
        start # finish # _ \<Rightarrow> (start, finish)
      | [start] \<Rightarrow> (start, None)
      | [] \<Rightarrow> (None, None))"

definition range_matches :: "string \<Rightarrow> nat \<Rightarrow> bool" where
  "range_matches key hour =
     (case range_bounds key of
        (Some start, Some finish) \<Rightarrow>
          if start \<le> hour \<and> hour < finish then True
          else if start > finish \<and> (hour \<ge> start \<or> hour < finish) then True
          else False
      | _ \<Rightarrow> False)"

fun multiplier_for :: "(string \<times> real) list \<Rightarrow> nat \<Rightarrow> real" where
  "multiplier_for [] hour = 1.0"
| "multiplier_for ((key, multiplier) # entries) hour =
     (if range_matches key hour then multiplier else multiplier_for entries hour)"

definition getTimeOfDayMultiplier :: "ensemble_config \<Rightarrow> nat \<Rightarrow> real" where
  "getTimeOfDayMultiplier cfg hour = multiplier_for (timeOfDayMultipliers cfg) hour"

text \<open>
  \<^verbatim>\<open>
  calculateDetectorAgreement(detectorResults) {
    const directions = { LONG: 0, SHORT: 0, NEUTRAL: 0 };
    const directionalDetectors = detectorResults.filter(d => d.direction !== 'NEUTRAL');
    directionalDetectors.forEach(detector => { directions[detector.direction]++; });
    const totalDirectional = directionalDetectors.length;
    const majorityDirection = ...;
    return { directions, totalDirectional,
             majorityDirection: majorityDirection ? majorityDirection[0] : 'NEUTRAL',
             majorityCount: majorityDirection ? majorityDirection[1] : 0,
             agreementRatio: totalDirectional > 0 ? majorityDirection[1] / totalDirectional : 0 };
  }
  \<close>
\<close>

definition tally_full :: "verdict list \<Rightarrow> direction \<Rightarrow> nat" where
  "tally_full directionalDetectors =
     foldl (\<lambda>directions detector.
              directions(direction detector := directions (direction detector) + 1))
       (\<lambda>dir. 0) directionalDetectors"

definition calculateDetectorAgreement_full :: "verdict list \<Rightarrow> agreement_full" where
  "calculateDetectorAgreement_full detectorResults =
     (let directionalDetectors = filter (\<lambda>d. direction d \<noteq> NEUTRAL) detectorResults;
          directions = tally_full directionalDetectors;
          totalDirectional = length directionalDetectors;
          majorityDirection = majorityEntry directions;
          majorityCount = (case majorityDirection of Some (dir, n) \<Rightarrow> n | None \<Rightarrow> 0)
      in \<lparr>directions = directions,
          majorityDirection = (case majorityDirection of Some (dir, n) \<Rightarrow> dir | None \<Rightarrow> NEUTRAL),
          majorityCount = majorityCount,
          totalDirectional = totalDirectional,
          agreementRatio =
            (if totalDirectional > 0 then real majorityCount / real totalDirectional else 0)\<rparr>)"

text \<open>
  \<^verbatim>\<open>
  calculateMetaScore(detectorResults, agreement) {
    let weightedSum = 0; let totalWeight = 0;
    let detectorFamilyCount = new Set();
    detectorResults.forEach(detector => {
      if (detector.direction !== 'NEUTRAL' && detector.direction === agreement.majorityDirection) {
        const weight = this.config.detectorWeights[detector.name] || 1.0;
        weightedSum += detector.score * weight;
        totalWeight += weight;
        detectorFamilyCount.add(detector.name.split('_')[0]); // Count unique families
      }
    });
    if (totalWeight === 0) return 0;
    let metaScore = weightedSum / totalWeight;
    const confluenceBonus = (detectorFamilyCount.size - 1) * 5; // 5% bonus per additional family
    metaScore += Math.min(20, confluenceBonus);
    const timeMultiplier = this.getTimeOfDayMultiplier();
    metaScore *= timeMultiplier;
    return Math.min(100, Math.max(0, metaScore));
  }
  \<close>
  A verdict without a name is looked up under the key \<open>undefined\<close>, and then
  \<open>detector.name.split\<close> throws. The set of families is a list without repetitions.

  \<^verbatim>\<open>this.config.detectorWeights[detector.name] || 1.0\<close> is 1.0 when no weight is
  configured under the name, and also when the configured weight is 0, which is falsy.

  The operations \<open>+\<close>, \<open>*\<close> and \<open>/\<close> of this method are the fields of an \<open>arith\<close>. In
  \<open>exact\<close> they are those of the reals. In the program each of them gives the exact result
  rounded to the nearest double, which is \<open>double\<close> below. The comparisons, \<open>Math.min\<close>
  and \<open>Math.max\<close> are exact in the program too, and so is
  \<^verbatim>\<open>(detectorFamilyCount.size - 1) * 5\<close>, a product of small integers.
\<close>

record arith =
  js_add :: "real \<Rightarrow> real \<Rightarrow> real"
  js_mul :: "real \<Rightarrow> real \<Rightarrow> real"
  js_div :: "real \<Rightarrow> real \<Rightarrow> real"

definition exact :: arith where
  "exact = \<lparr>js_add = (\<lambda>a b. a + b), js_mul = (\<lambda>a b. a * b), js_div = (\<lambda>a b. a / b)\<rparr>"

definition rounded :: "(real \<Rightarrow> real) \<Rightarrow> arith" where
  "rounded fl =
     \<lparr>js_add = (\<lambda>a b. fl (a + b)), js_mul = (\<lambda>a b. fl (a * b)), js_div = (\<lambda>a b. fl (a / b))\<rparr>"

definition double :: arith where
  "double = rounded to_double"

text \<open>
  The numbers written in a configuration are doubles too: a decimal literal of the source
  stands for the double nearest to it.
\<close>

definition as_doubles :: "ensemble_config \<Rightarrow> ensemble_config" where
  "as_doubles cfg =
     cfg\<lparr>minConfidence := to_double (minConfidence cfg),
         detectorWeights := (\<lambda>nm. map_option to_double (detectorWeights cfg nm)),
         timeOfDayMultipliers :=
           map (\<lambda>(key, multiplier). (key, to_double multiplier)) (timeOfDayMultipliers cfg)\<rparr>"

definition configured_weight :: "ensemble_config \<Rightarrow> string option \<Rightarrow> real" where
  "configured_weight cfg nm =
     (case detectorWeights cfg (case nm of None \<Rightarrow> ''undefined'' | Some n \<Rightarrow> n) of
        None \<Rightarrow> 1.0
      | Some w \<Rightarrow> if w = 0 then 1.0 else w)"

definition family :: "string \<Rightarrow> string" where
  "family nm = (case split CHR ''_'' nm of piece # _ \<Rightarrow> piece | [] \<Rightarrow> [])"

fun metaScore_forEach ::
  "arith \<Rightarrow> ensemble_config \<Rightarrow> direction \<Rightarrow> verdict list \<Rightarrow> real \<times> real \<times> string list
     \<Rightarrow> error + real \<times> real \<times> string list" where
  "metaScore_forEach ar cfg majority [] acc = Inr acc"
| "metaScore_forEach ar cfg majority (detector # rest)
       (weightedSum, totalWeight, detectorFamilyCount) =
     (if direction detector \<noteq> NEUTRAL \<and> direction detector = majority then
        (let weight = configured_weight cfg (name detector)
         in case name detector of
              None \<Rightarrow> Inl (TypeError ''Cannot read properties of undefined (reading split)'')
            | Some nm \<Rightarrow>
                metaScore_forEach ar cfg majority rest
                  (js_add ar weightedSum (js_mul ar (score detector) weight),
                   js_add ar totalWeight weight,
                   List.insert (family nm) detectorFamilyCount))
      else metaScore_forEach ar cfg majority rest (weightedSum, totalWeight, detectorFamilyCount))"

definition calculateMetaScore_full ::
  "arith \<Rightarrow> ensemble_config \<Rightarrow> nat \<Rightarrow> verdict list \<Rightarrow> 'a agreement_scheme \<Rightarrow> error + real" where
  "calculateMetaScore_full ar cfg hour detectorResults agreement =
     and_then (metaScore_forEach ar cfg (majorityDirection agreement) detectorResults (0, 0, []))
       (\<lambda>(weightedSum, totalWeight, detectorFamilyCount).
          if totalWeight = 0 then Inr 0
          else
            let metaScore = js_div ar weightedSum totalWeight;
                confluenceBonus = (real (length detectorFamilyCount) - 1) * 5;
                metaScore = js_add ar metaScore (min 20 confluenceBonus);
                timeMultiplier = getTimeOfDayMultiplier cfg hour;
                metaScore = js_mul ar metaScore timeMultiplier
            in Inr (min 100 (max 0 metaScore)))"

text \<open>
  \<^verbatim>\<open>
  calculateAverageATR(data) {
    const timeframes = ['15m', '1h', '4h'];
    let totalATR = 0; let count = 0;
    timeframes.forEach(tf => {
      const candles = data[tf];
      if (candles && candles.length > 14) {
        const atr = TradingUtils.calculateATR(candles);
        totalATR += atr; count++;
      }
    });
    return count > 0 ? totalATR / count : 0.02; // Default 2% if no data
  }
  \<close>
\<close>

fun averageATR_forEach ::
  "candle option list option list \<Rightarrow> real \<times> nat \<Rightarrow> error + real \<times> nat" where
  "averageATR_forEach [] acc = Inr acc"
| "averageATR_forEach (candles # timeframes) (totalATR, count) =
     (case candles of
        None \<Rightarrow> averageATR_forEach timeframes (totalATR, count)
      | Some cs \<Rightarrow>
          if length cs > 14 then
            and_then (calculateATR cs 14) (\<lambda>atr.
              averageATR_forEach timeframes (totalATR + atr, count + 1))
          else averageATR_forEach timeframes (totalATR, count))"

definition calculateAverageATR :: "snapshot \<Rightarrow> error + real" where
  "calculateAverageATR data =
     and_then (averageATR_forEach [tf15m data, tf1h data, tf4h data] (0, 0))
       (\<lambda>(totalATR, count). Inr (if count > 0 then totalATR / real count else 0.02))"

text \<open>\<^verbatim>\<open>str.includes(sub)\<close>: \<open>sub\<close> occurs in \<open>str\<close> as a run of consecutive characters.\<close>

fun str_includes :: "string \<Rightarrow> string \<Rightarrow> bool" where
  "str_includes [] sub = (sub = [])"
| "str_includes (c # cs) sub = (take (length sub) (c # cs) = sub \<or> str_includes cs sub)"

text \<open>
  \<^verbatim>\<open>
  const momentumDetector = directionalDetectors.find(d =>
    d.name.includes('momentum') || d.name.includes('breakout'));
  const hasStrongMomentum = directionalDetectors.some(d =>
    d.score > 70 && (d.name.includes('momentum') || d.name.includes('volume')));
  \<close>
  Both read \<open>d.name.includes\<close>, which throws for a verdict without a name.
\<close>

fun find_momentum :: "verdict list \<Rightarrow> error + verdict option" where
  "find_momentum [] = Inr None"
| "find_momentum (d # ds) =
     (case name d of
        None \<Rightarrow> Inl (TypeError ''Cannot read properties of undefined (reading includes)'')
      | Some nm \<Rightarrow>
          if str_includes nm ''momentum'' \<or> str_includes nm ''breakout'' then Inr (Some d)
          else find_momentum ds)"

fun some_strong_momentum :: "verdict list \<Rightarrow> error + bool" where
  "some_strong_momentum [] = Inr False"
| "some_strong_momentum (d # ds) =
     (if score d > 70 then
        (case name d of
           None \<Rightarrow> Inl (TypeError ''Cannot read properties of undefined (reading includes)'')
         | Some nm \<Rightarrow>
             if str_includes nm ''momentum'' \<or> str_includes nm ''volume'' then Inr True
             else some_strong_momentum ds)
      else some_strong_momentum ds)"

text \<open>
  \<^verbatim>\<open>
  generateLevels(direction, currentPrice, data, detectorResults) {
    const atr = this.calculateAverageATR(data);
    const volatilityAdjustedATR = atr * currentPrice;
    const directionalDetectors = detectorResults
      .filter(d => d.direction === direction && d.score > 50)
      .sort((a, b) => b.score - a.score);
    let entryPrice = currentPrice;
    const momentumDetector = ...;
    if (momentumDetector && momentumDetector.metadata) {
      if (direction === 'LONG' && momentumDetector.metadata.recentHigh) {
        entryPrice = Math.min(currentPrice, momentumDetector.metadata.recentHigh * 1.001);
      } else if (direction === 'SHORT' && momentumDetector.metadata.recentLow) {
        entryPrice = Math.max(currentPrice, momentumDetector.metadata.recentLow * 0.999);
      }
    }
    const slDistance = volatilityAdjustedATR * 0.8; // 0.8 ATR for SL
    const stopLoss = direction === 'LONG' ? entryPrice - slDistance : entryPrice + slDistance;
    const risk = Math.abs(entryPrice - stopLoss);
    const minTPDistance = risk * 1.5;
    const takeProfit = direction === 'LONG' ? entryPrice + minTPDistance : entryPrice - minTPDistance;
    const hasStrongMomentum = ...;
    const finalTakeProfit = hasStrongMomentum
      ? direction === 'LONG' ? takeProfit * 1.1 : takeProfit * 0.9
      : takeProfit;
    const rrRatio = Math.abs(finalTakeProfit - entryPrice) / risk;
    return { entry: parseFloat(entryPrice.toFixed(6)), sl: parseFloat(stopLoss.toFixed(6)),
             tp: parseFloat(finalTakeProfit.toFixed(6)), rr: rrRatio.toFixed(2) };
  }
  \<close>
  This version has no path of its own for short 15-minute histories. An entry of the
  metadata counts when it is there and not 0. The ratio is a quotient by the risk; the
  model is exact where the risk is not zero.
\<close>

definition truthy_entry :: "(string \<times> real) list \<Rightarrow> string \<Rightarrow> real option" where
  "truthy_entry md key =
     (case map_of md key of None \<Rightarrow> None | Some x \<Rightarrow> if x = 0 then None else Some x)"

definition generateLevels_full ::
  "direction \<Rightarrow> real \<Rightarrow> snapshot \<Rightarrow> verdict list \<Rightarrow> error + levels" where
  "generateLevels_full dir currentPrice data detectorResults =
     and_then (calculateAverageATR data) (\<lambda>atr.
       let volatilityAdjustedATR = atr * currentPrice;
           directionalDetectors =
             sort_key (\<lambda>d. - score d)
               (filter (\<lambda>d. direction d = dir \<and> score d > 50) detectorResults)
       in and_then (find_momentum directionalDetectors) (\<lambda>momentumDetector.
            let entryPrice =
                  (case momentumDetector of
                     None \<Rightarrow> currentPrice
                   | Some m \<Rightarrow>
                       (case metadata m of
                          None \<Rightarrow> currentPrice
                        | Some md \<Rightarrow>
                            if dir = LONG \<and> truthy_entry md ''recentHigh'' \<noteq> None then
                              min currentPrice (the (truthy_entry md ''recentHigh'') * 1.001)
                            else if dir = SHORT \<and> truthy_entry md ''recentLow'' \<noteq> None then
                              max currentPrice (the (truthy_entry md ''recentLow'') * 0.999)
                            else currentPrice));
                slDistance = volatilityAdjustedATR * 0.8;
                stopLoss = (if dir = LONG then entryPrice - slDistance
                            else entryPrice + slDistance);
                risk = \<bar>entryPrice - stopLoss\<bar>;
                minTPDistance = risk * 1.5;
                takeProfit = (if dir = LONG then entryPrice + minTPDistance
                              else entryPrice - minTPDistance)
            in and_then (some_strong_momentum directionalDetectors) (\<lambda>hasStrongMomentum.
                 let finalTakeProfit =
                       (if hasStrongMomentum
                        then (if dir = LONG then takeProfit * 1.1 else takeProfit * 0.9)
                        else takeProfit);
                     rrRatio = \<bar>finalTakeProfit - entryPrice\<bar> / risk
                 in Inr \<lparr>entry = toFixed 6 entryPrice, sl = toFixed 6 stopLoss,
                         tp = toFixed 6 finalTakeProfit, rr = toFixed 2 rrRatio\<rparr>)))"

text \<open>
  \<^verbatim>\<open>
  async analyze(detectorResults, data) {
    const agreement = this.calculateDetectorAgreement(detectorResults);
    const metaScore = this.calculateMetaScore(detectorResults, agreement);
    const hasMinimumAgreement = agreement.majorityCount >= this.config.minDetectorAgreement;
    const hasMinimumConfidence = metaScore >= this.config.minConfidence;
    const hasValidDirection = agreement.majorityDirection !== 'NEUTRAL';
    let finalDecision = {
      direction: 'NO_TRADE', confidence: 0, reason: 'No trading signal generated', levels: null,
      explain: { detectorResults, agreement, metaScore,
                 timeMultiplier: this.getTimeOfDayMultiplier(), requirementsMet: false } };
    if (hasMinimumAgreement && hasMinimumConfidence && hasValidDirection) {
      const currentPrice = data['15m']?.[data['15m'].length - 1]?.close ||
                          data['1h']?.[data['1h'].length - 1]?.close || 0;
      const levels = this.generateLevels(agreement.majorityDirection, currentPrice, data,
                                         detectorResults);
      finalDecision = {
        direction: agreement.majorityDirection, confidence: Math.round(metaScore),
        reason: `Ensemble signal: ${agreement.majorityCount} detectors agree, ${metaScore.toFixed(1)}% confidence`,
        levels,
        explain: { detectorResults, agreement, metaScore,
                   timeMultiplier: this.getTimeOfDayMultiplier(), requirementsMet: true,
                   detectorFamilies: Array.from(new Set(detectorResults.map(d => d.name.split('_')[0]))) } };
    } else {
      finalDecision.explain.requirementsMet = false;
      finalDecision.explain.failureReasons = [];
      if (!hasMinimumAgreement) finalDecision.explain.failureReasons.push(`Insufficient detector agreement: ...`);
      if (!hasMinimumConfidence) finalDecision.explain.failureReasons.push(`Low confidence: ...`);
      if (!hasValidDirection) finalDecision.explain.failureReasons.push('No clear directional bias');
    }
    return finalDecision;
  }
  \<close>
  \<open>detectorFamilies\<close> reads the name of every verdict, and throws when one has none.
\<close>

record explain_full =
  full_detectorResults :: "verdict list"
  full_agreement :: agreement_full
  full_metaScore :: real
  timeMultiplier :: real
  requirementsMet :: bool
  failureReasons :: "reason list option"
  detectorFamilies :: "string list option"

record decision_full =
  full_decided :: decision_direction
  full_confidence :: real
  full_reason :: reason
  full_levels :: "levels option"
  full_explain :: explain_full

fun all_families :: "verdict list \<Rightarrow> error + string list" where
  "all_families [] = Inr []"
| "all_families (d # ds) =
     (case name d of
        None \<Rightarrow> Inl (TypeError ''Cannot read properties of undefined (reading split)'')
      | Some nm \<Rightarrow> and_then (all_families ds) (\<lambda>fams. Inr (family nm # fams)))"

definition currentPrice_full :: "snapshot \<Rightarrow> real" where
  "currentPrice_full data =
     (let lastClose = (\<lambda>tf.
            case tf of
              None \<Rightarrow> None
            | Some cs \<Rightarrow> if cs = [] then None else map_option close (last cs));
          close1h = (case lastClose (tf1h data) of None \<Rightarrow> 0 | Some c \<Rightarrow> c)
      in case lastClose (tf15m data) of
           None \<Rightarrow> close1h
         | Some c \<Rightarrow> if c = 0 then close1h else c)"

definition analyze_full ::
  "arith \<Rightarrow> ensemble_config \<Rightarrow> nat \<Rightarrow> verdict list \<Rightarrow> snapshot \<Rightarrow> error + decision_full" where
  "analyze_full ar cfg hour detectorResults data =
     (let agreement = calculateDetectorAgreement_full detectorResults
      in and_then (calculateMetaScore_full ar cfg hour detectorResults agreement) (\<lambda>metaScore.
           let hasMinimumAgreement = (majorityCount agreement \<ge> minDetectorAgreement cfg);
               hasMinimumConfidence = (metaScore \<ge> minConfidence cfg);
               hasValidDirection = (majorityDirection agreement \<noteq> NEUTRAL)
           in if hasMinimumAgreement \<and> hasMinimumConfidence \<and> hasValidDirection then
                and_then (generateLevels_full (majorityDirection agreement)
                            (currentPrice_full data) data detectorResults) (\<lambda>levels.
                and_then (all_families detectorResults) (\<lambda>fams.
                  Inr \<lparr>full_decided = Trade (majorityDirection agreement),
                       full_confidence = Math_round metaScore,
                       full_reason =
                         Formatted ''Ensemble signal''
                           [real (majorityCount agreement), toFixed 1 metaScore],
                       full_levels = Some levels,
                       full_explain =
                         \<lparr>full_detectorResults = detectorResults,
                          full_agreement = agreement,
                          full_metaScore = metaScore,
                          timeMultiplier = getTimeOfDayMultiplier cfg hour,
                          requirementsMet = True,
                          failureReasons = None,
                          detectorFamilies = Some (remdups fams)\<rparr>\<rparr>))
              else
                Inr \<lparr>full_decided = NO_TRADE,
                     full_confidence = 0,
                     full_reason = Plain ''No trading signal generated'',
                     full_levels = None,
                     full_explain =
                       \<lparr>full_detectorResults = detectorResults,
                        full_agreement = agreement,
                        full_metaScore = metaScore,
                        timeMultiplier = getTimeOfDayMultiplier cfg hour,
                        requirementsMet = False,
                        failureReasons = Some
                          ((if hasMinimumAgreement then []
                            else [Formatted ''Insufficient detector agreement''
                                    [real (majorityCount agreement),
                                     real (minDetectorAgreement cfg)]])
                           @ (if hasMinimumConfidence then []
                              else [Formatted ''Low confidence''
                                      [toFixed 1 metaScore, minConfidence cfg]])
                           @ (if hasValidDirection then []
                              else [Plain ''No clear directional bias''])),
                        detectorFamilies = None\<rparr>\<rparr>))"

section \<open>The meta-score as the specification words it\<close>

text \<open>
  The specification describes the meta-score by a formula: the weighted mean of the
  scores of the verdicts that agree with the majority direction, the weight of a verdict
  being the weight configured for its detector and 1.0 when none is configured, plus 5
  points for every distinct detector family beyond the first, at most 20, times the
  time-of-day multiplier, clamped to the interval from 0 to 100. The definitions of this
  section follow those words, not the code; they are compared with both versions of
  \<open>calculateMetaScore\<close> below.

  The weight is the configured one as it stands, a configured 0 included. The weighted
  mean is the sum of the weighted scores over the sum of the weights; the sums run through
  the verdicts in the order of the list and, like the products and the quotient, are taken
  in the arithmetic given.
\<close>

definition agreeing :: "direction \<Rightarrow> verdict list \<Rightarrow> verdict list" where
  "agreeing majority vs = filter (\<lambda>v. direction v = majority) vs"

definition claimed_weight :: "ensemble_config \<Rightarrow> verdict \<Rightarrow> real" where
  "claimed_weight cfg v =
     (case name v of
        None \<Rightarrow> 1.0
      | Some nm \<Rightarrow> (case detectorWeights cfg nm of None \<Rightarrow> 1.0 | Some w \<Rightarrow> w))"

definition sum_in :: "arith \<Rightarrow> real list \<Rightarrow> real" where
  "sum_in ar xs = foldl (js_add ar) 0 xs"

definition weighted_mean :: "arith \<Rightarrow> ensemble_config \<Rightarrow> verdict list \<Rightarrow> real" where
  "weighted_mean ar cfg vs =
     js_div ar
       (sum_in ar (map (\<lambda>v. js_mul ar (score v) (claimed_weight cfg v)) vs))
       (sum_in ar (map (claimed_weight cfg) vs))"

definition families :: "verdict list \<Rightarrow> string list" where
  "families vs = remdups (map family (List.map_filter name vs))"

definition confluence_bonus :: "verdict list \<Rightarrow> real" where
  "confluence_bonus vs = min 20 (5 * (real (length (families vs)) - 1))"

definition clamp_0_100 :: "real \<Rightarrow> real" where
  "clamp_0_100 x = min 100 (max 0 x)"

definition metaScore_spec ::
  "arith \<Rightarrow> ensemble_config \<Rightarrow> nat \<Rightarrow> direction \<Rightarrow> verdict list \<Rightarrow> real" where
  "metaScore_spec ar cfg hour majority vs =
     clamp_0_100
       (js_mul ar
          (js_add ar (weighted_mean ar cfg (agreeing majority vs))
             (confluence_bonus (agreeing majority vs)))
          (getTimeOfDayMultiplier cfg hour))"

section \<open>Concrete snapshots and verdicts\<close>

text \<open>
  Twenty-five 15-minute candles. The first twenty-four are flat at 100 with volume 4, but
  for the fifth and the eleventh, of volume 9; the last one has volume 9, so that the mean
  volume is 4.5 over the last twenty candles and over the twenty before the last. In
  \<open>breakout_bars\<close> the last candle rises to 102, which is 2 percent above every earlier
  high.
\<close>

definition bar :: "nat \<Rightarrow> real \<Rightarrow> real \<Rightarrow> real \<Rightarrow> real \<Rightarrow> real \<Rightarrow> candle" where
  "bar i opn hi lo cl vol =
     \<lparr>timestamp = 900000 * real i, c_open = opn, high = hi, low = lo, close = cl,
      volume = vol\<rparr>"

definition flat_bars :: "candle list" where
  "flat_bars =
     map (\<lambda>i. bar i 100 100 100 100 (if i = 4 \<or> i = 10 then 9 else 4))
       [0, 1, 2, 3, 4, 5, 6, 7, 8, 9, 10, 11, 12, 13, 14, 15, 16, 17, 18, 19, 20, 21, 22, 23]"

definition breakout_bars :: "candle list" where
  "breakout_bars = flat_bars @ [bar 24 100 102 100 102 9]"

text \<open>In \<open>plunge_bars\<close> the last candle falls from 100 to 71.\<close>

definition plunge_bars :: "candle list" where
  "plunge_bars = flat_bars @ [bar 24 100 100 71 71 9]"

text \<open>
  Twenty-five 15-minute candles with the same volumes. The first twenty-four open and
  close at 105 between a low of 100 and a high of 110; the last one opens at 98, below
  every earlier low, and closes at 97.5 between a high of 98 and a low of 97.
\<close>

definition wide_bars :: "candle list" where
  "wide_bars =
     map (\<lambda>i. bar i 105 110 100 105 (if i = 4 \<or> i = 10 then 9 else 4))
       [0, 1, 2, 3, 4, 5, 6, 7, 8, 9, 10, 11, 12, 13, 14, 15, 16, 17, 18, 19, 20, 21, 22, 23]"

definition gapdown_bars :: "candle list" where
  "gapdown_bars = wide_bars @ [bar 24 98 98 97 97.5 9]"

definition snapshot_15m :: "candle list \<Rightarrow> snapshot" where
  "snapshot_15m candles =
     \<lparr>tf1m = Some [], tf15m = Some (map Some candles), tf1h = Some [], tf4h = Some [],
      book = Some \<lparr>bids = Some [(99.9, 1)], asks = Some [(100.1, 1)]\<rparr>,
      ticker_last = Some 100\<rparr>"

text \<open>The same snapshot with a hole in the data: a \<open>null\<close> after the twenty-four flat candles.\<close>

definition holed_snapshot :: snapshot where
  "holed_snapshot =
     \<lparr>tf1m = Some [], tf15m = Some (map Some flat_bars @ [None]), tf1h = Some [], tf4h = Some [],
      book = Some \<lparr>bids = Some [(99.9, 1)], asks = Some [(100.1, 1)]\<rparr>,
      ticker_last = Some 100\<rparr>"

text \<open>
  Twenty-five hourly candles: twenty closes at 100, then 110, 99, 99, 108.9 and 98.01,
  that is the changes \<open>+10%\<close>, \<open>-10%\<close>, \<open>0\<close>, \<open>+10%\<close>, \<open>-10%\<close> after nineteen changes of 0.
\<close>

definition hour_bar :: "nat \<Rightarrow> real \<Rightarrow> candle" where
  "hour_bar i cl =
     \<lparr>timestamp = 3600000 * real i, c_open = cl, high = cl, low = cl, close = cl,
      volume = 1\<rparr>"

definition volatile_bars :: "candle list" where
  "volatile_bars =
     map (\<lambda>i. hour_bar i 100)
       [0, 1, 2, 3, 4, 5, 6, 7, 8, 9, 10, 11, 12, 13, 14, 15, 16, 17, 18, 19]
     @ [hour_bar 20 110, hour_bar 21 99, hour_bar 22 99, hour_bar 23 108.9, hour_bar 24 98.01]"

definition volatile_changes :: "real list" where
  "volatile_changes =
     [0, 0, 0, 0, 0, 0, 0, 0, 0, 0, 0, 0, 0, 0, 0, 0, 0, 0, 0, 1 / 10, - 1 / 10, 0, 1 / 10, - 1 / 10]"

definition volatile_snapshot :: snapshot where
  "volatile_snapshot =
     \<lparr>tf1m = Some [], tf15m = Some [], tf1h = Some (map Some volatile_bars), tf4h = Some [],
      book = Some \<lparr>bids = Some [(98, 1)], asks = Some [(98.02, 1)]\<rparr>,
      ticker_last = Some 98.01\<rparr>"

text \<open>An indicator library that returns empty arrays, and a given random number.\<close>

definition env_with :: "real \<Rightarrow> env" where
  "env_with r =
     \<lparr>RSI_calculate = (\<lambda>values period. Inr []),
      BollingerBands_calculate = (\<lambda>values period stdDev. Inr []),
      Math_random = r\<rparr>"

text \<open>A snapshot without candles, and verdicts as the detectors shape them.\<close>

definition empty_snapshot :: snapshot where
  "empty_snapshot =
     \<lparr>tf1m = Some [], tf15m = Some [], tf1h = Some [], tf4h = Some [],
      book = None, ticker_last = Some 100\<rparr>"

definition verdict_of :: "string \<Rightarrow> real \<Rightarrow> direction \<Rightarrow> real \<Rightarrow> verdict" where
  "verdict_of nm sc dir w =
     \<lparr>name = Some nm, score = sc, direction = dir, reason = Plain ''signal'',
      metadata = None, weight = Some w\<rparr>"

definition two_longs :: "verdict list" where
  "two_longs =
     [verdict_of ''momentum_breakout'' 80 LONG 1.2, verdict_of ''volume_spike'' 70 LONG 1.0]"

text \<open>
  Three verdicts of detectors of weight 1.0, in the suite and in the default configuration
  of the full ensemble (which has no entry for \<open>rsi_momentum\<close>).
\<close>

definition three_longs :: "verdict list" where
  "three_longs =
     [verdict_of ''volume_spike'' 80 LONG 1.0, verdict_of ''volatility_squeeze'' 70 LONG 1.0,
      verdict_of ''rsi_momentum'' 60 LONG 1.0]"

definition one_long :: "verdict list" where
  "one_long = [verdict_of ''momentum_breakout'' 80 LONG 1.2]"

text \<open>Two verdicts of score 55, of detectors of weight 1.2 and 1.0.\<close>

definition fifty_fives :: "verdict list" where
  "fifty_fives =
     [verdict_of ''momentum_breakout'' 55 LONG 1.2, verdict_of ''volume_spike'' 55 LONG 1.0]"

definition low_long :: "verdict list" where
  "low_long = [verdict_of ''volume_spike'' 10 LONG 1.0]"

text \<open>
  A full ensemble constructed with
  \<^verbatim>\<open>{ detectorWeights: { momentum_breakout: 0, volume_spike: 1 } }\<close>, and two verdicts
  for it.
\<close>

definition zero_weight_config :: ensemble_config where
  "zero_weight_config =
     \<lparr>minConfidence = 60, minDetectorAgreement = 2,
      detectorWeights = [''momentum_breakout'' \<mapsto> 0, ''volume_spike'' \<mapsto> 1],
      timeOfDayMultipliers = default_timeOfDayMultipliers\<rparr>"

definition mixed_longs :: "verdict list" where
  "mixed_longs =
     [verdict_of ''momentum_breakout'' 80 LONG 1.2, verdict_of ''volume_spike'' 50 LONG 1.0]"

section \<open>Position sizing\<close>

text \<open>
  C8. Whenever the entry equals the stop loss, \<open>calculatePositionSize\<close> takes the guard
  before the division and returns size 0 and maxLoss 0, whatever the balance and the risk
  percentage; in particular for balance 1000, risk 2 percent, entry 100 and stop loss 100.
\<close>

theorem calculatePositionSize_zero_risk:
  "calculatePositionSize accountBalance riskPercent price price = \<lparr>size_pos = 0, maxLoss = 0\<rparr>
   \<and> calculatePositionSize 1000 2 100 100 = \<lparr>size_pos = 0, maxLoss = 0\<rparr>"
  by (simp add: calculatePositionSize_def)

section \<open>Agreement among the verdicts\<close>

lemma tally_simplified_step:
  "foldl (\<lambda>directions detector.
              if direction detector \<noteq> NEUTRAL \<and> score detector > 40
              then directions(direction detector := directions (direction detector) + 1)
              else directions) acc ds dir
   = acc dir + length (filter (\<lambda>d. direction d = dir \<and> dir \<noteq> NEUTRAL \<and> score d > 40) ds)"
  by (induction ds arbitrary: acc) auto

lemma tally_simplified_count:
  "tally_simplified ds dir
     = length (filter (\<lambda>d. direction d = dir \<and> dir \<noteq> NEUTRAL \<and> score d > 40) ds)"
  unfolding tally_simplified_def tally_simplified_step by simp

lemma majorityEntry_eq:
  "majorityEntry counts =
     Some (if counts SHORT > counts LONG then (SHORT, counts SHORT) else (LONG, counts LONG))"
  by (simp add: majorityEntry_def)

text \<open>
  C3, as amended. In the simplified version of the ensemble, the \<open>LONG\<close> tally of the
  agreement is the number of verdicts with direction \<open>LONG\<close> and a score above 40, the
  \<open>SHORT\<close> tally is the number of verdicts with direction \<open>SHORT\<close> and a score above 40,
  and nothing is counted under \<open>NEUTRAL\<close>. Said for one verdict \<open>d\<close> anywhere in the list: it adds one to the tally
  of its direction when that direction is not \<open>NEUTRAL\<close> and its score is strictly greater
  than 40, and it adds nothing to any tally otherwise, so a \<open>LONG\<close> or \<open>SHORT\<close> verdict with a
  score of 40 or less counts towards neither.
\<close>

theorem calculateDetectorAgreement_simplified_tallies:
  "directions (calculateDetectorAgreement_simplified ds) LONG
     = length (filter (\<lambda>d. direction d = LONG \<and> score d > 40) ds)
   \<and> directions (calculateDetectorAgreement_simplified ds) SHORT
     = length (filter (\<lambda>d. direction d = SHORT \<and> score d > 40) ds)
   \<and> directions (calculateDetectorAgreement_simplified ds) NEUTRAL = 0
   \<and> directions (calculateDetectorAgreement_simplified (xs @ d # ys)) dir
     = directions (calculateDetectorAgreement_simplified (xs @ ys)) dir
       + (if direction d = dir \<and> dir \<noteq> NEUTRAL \<and> score d > 40 then 1 else 0)"
  by (simp add: calculateDetectorAgreement_simplified_def Let_def tally_simplified_count)

lemma agreement_simplified_majority:
  "majorityDirection (calculateDetectorAgreement_simplified ds) \<noteq> NEUTRAL"
  by (simp add: calculateDetectorAgreement_simplified_def Let_def majorityEntry_eq)

section \<open>The decision of the simplified ensemble\<close>

text \<open>
  C2, as amended. In the simplified version of the ensemble: whenever \<open>analyze\<close> returns
  a decision that is a trade, the majority direction is not \<open>NEUTRAL\<close>, the majority count
  is at least \<open>minDetectorAgreement\<close> and the meta-score is at least \<open>minConfidence\<close>; and
  whenever the majority count is below \<open>minDetectorAgreement\<close>, the meta-score is 0 and
  \<open>analyze\<close> returns a decision with direction \<open>NO_TRADE\<close> (which reports that
  meta-score of 0).
\<close>

theorem analyze_simplified_gate:
  "(analyze_simplified cfg ds data = Inr dec \<and> decided dec \<noteq> NO_TRADE \<longrightarrow>
      majorityDirection (calculateDetectorAgreement_simplified ds) \<noteq> NEUTRAL
      \<and> majorityCount (calculateDetectorAgreement_simplified ds) \<ge> minDetectorAgreement cfg
      \<and> calculateMetaScore_simplified cfg ds (calculateDetectorAgreement_simplified ds)
            \<ge> minConfidence cfg)
   \<and> (majorityCount (calculateDetectorAgreement_simplified ds) < minDetectorAgreement cfg \<longrightarrow>
      calculateMetaScore_simplified cfg ds (calculateDetectorAgreement_simplified ds) = 0
      \<and> (\<exists>dec'. analyze_simplified cfg ds data = Inr dec' \<and> decided dec' = NO_TRADE
             \<and> explain_metaScore (decision_explain dec') = 0))"
proof (intro conjI impI)
  assume a: "analyze_simplified cfg ds data = Inr dec \<and> decided dec \<noteq> NO_TRADE"
  show "majorityDirection (calculateDetectorAgreement_simplified ds) \<noteq> NEUTRAL"
    by (rule agreement_simplified_majority)
  have both:
    "calculateMetaScore_simplified cfg ds (calculateDetectorAgreement_simplified ds)
        \<ge> minConfidence cfg
     \<and> majorityCount (calculateDetectorAgreement_simplified ds) \<ge> minDetectorAgreement cfg"
  proof (rule ccontr)
    assume "\<not> ?thesis"
    then have "analyze_simplified cfg ds data = Inr dec \<Longrightarrow> decided dec = NO_TRADE"
      by (auto simp: analyze_simplified_def Let_def)
    with a show False by simp
  qed
  from both show "majorityCount (calculateDetectorAgreement_simplified ds) \<ge> minDetectorAgreement cfg"
    by simp
  from both show
    "calculateMetaScore_simplified cfg ds (calculateDetectorAgreement_simplified ds)
       \<ge> minConfidence cfg"
    by simp
next
  assume b: "majorityCount (calculateDetectorAgreement_simplified ds) < minDetectorAgreement cfg"
  then show "calculateMetaScore_simplified cfg ds (calculateDetectorAgreement_simplified ds) = 0"
    by (simp add: calculateMetaScore_simplified_def)
  from b show "\<exists>dec'. analyze_simplified cfg ds data = Inr dec' \<and> decided dec' = NO_TRADE
             \<and> explain_metaScore (decision_explain dec') = 0"
    by (simp add: analyze_simplified_def Let_def calculateMetaScore_simplified_def)
qed

lemma two_longs_agreement:
  "majorityDirection (calculateDetectorAgreement_simplified two_longs) = LONG"
  "majorityCount (calculateDetectorAgreement_simplified two_longs) = 2"
  by (simp_all add: calculateDetectorAgreement_simplified_def Let_def majorityEntry_eq
      tally_simplified_count two_longs_def verdict_of_def)

lemma two_longs_metaScore:
  "calculateMetaScore_simplified default_ensemble_config two_longs
     (calculateDetectorAgreement_simplified two_longs) = 93"
  by (simp add: calculateMetaScore_simplified_def two_longs_agreement default_ensemble_config_def
        Let_def)
     (simp add: two_longs_def verdict_of_def weight_or_1_def
        calculateDetectorAgreement_simplified_def Let_def majorityEntry_eq tally_simplified_count)

lemma one_long_agreement:
  "majorityCount (calculateDetectorAgreement_simplified one_long) = 1"
  by (simp add: calculateDetectorAgreement_simplified_def Let_def majorityEntry_eq
      tally_simplified_count one_long_def verdict_of_def)

theorem analyze_simplified_gate_witness:
  "(\<exists>dec. analyze_simplified default_ensemble_config two_longs empty_snapshot = Inr dec
        \<and> decided dec = Trade LONG)
   \<and> majorityDirection (calculateDetectorAgreement_simplified two_longs) \<noteq> NEUTRAL
   \<and> majorityCount (calculateDetectorAgreement_simplified two_longs)
        \<ge> minDetectorAgreement default_ensemble_config
   \<and> calculateMetaScore_simplified default_ensemble_config two_longs
        (calculateDetectorAgreement_simplified two_longs) \<ge> minConfidence default_ensemble_config
   \<and> majorityCount (calculateDetectorAgreement_simplified one_long)
        < minDetectorAgreement default_ensemble_config
   \<and> calculateMetaScore_simplified default_ensemble_config one_long
        (calculateDetectorAgreement_simplified one_long) = 0
   \<and> (\<exists>dec'. analyze_simplified default_ensemble_config one_long empty_snapshot = Inr dec'
        \<and> decided dec' = NO_TRADE)"
proof -
  have trade: "\<exists>dec. analyze_simplified default_ensemble_config two_longs empty_snapshot = Inr dec
        \<and> decided dec = Trade LONG"
    by (simp add: analyze_simplified_def Let_def two_longs_agreement two_longs_metaScore)
       (simp add: default_ensemble_config_def generateLevels_simplified_def empty_snapshot_def)
  then obtain dec where dec:
    "analyze_simplified default_ensemble_config two_longs empty_snapshot = Inr dec"
    "decided dec = Trade LONG"
    by blast
  have below: "majorityCount (calculateDetectorAgreement_simplified one_long)
        < minDetectorAgreement default_ensemble_config"
    by (simp add: one_long_agreement default_ensemble_config_def)
  from analyze_simplified_gate[of default_ensemble_config two_longs empty_snapshot dec] dec
       analyze_simplified_gate[of default_ensemble_config one_long empty_snapshot] below trade
  show ?thesis by auto
qed

section \<open>The fallback levels of the simplified ensemble\<close>

text \<open>
  C6, as amended. For every snapshot with fewer than 10 candles of 15-minute history,
  \<open>generateLevels\<close> of the simplified version, for direction \<open>LONG\<close> at a current price
  of 100, returns the entry 100, the stop loss 98 (2 percent below the price) and the take
  profit 103.6; the reported risk/reward ratio is 1.8, and it is the distance to the take
  profit over the distance to the stop loss.
\<close>

theorem generateLevels_simplified_fallback:
  assumes "length (case tf15m data of None \<Rightarrow> [] | Some cs \<Rightarrow> cs) < 10"
  shows "generateLevels_simplified LONG 100 data
           = Inr \<lparr>entry = 100, sl = 98, tp = 103.6, rr = 1.8\<rparr>
         \<and> (103.6 - 100) / (100 - 98) = (1.8 :: real)"
  using assms
  by (simp add: generateLevels_simplified_def generateDefaultLevels_def Let_def toFixed_def)

theorem generateLevels_simplified_fallback_witness:
  "length (case tf15m empty_snapshot of None \<Rightarrow> [] | Some cs \<Rightarrow> cs) < 10
   \<and> generateLevels_simplified LONG 100 empty_snapshot
       = Inr \<lparr>entry = 100, sl = 98, tp = 103.6, rr = 1.8\<rparr>"
proof -
  have h: "length (case tf15m empty_snapshot of None \<Rightarrow> [] | Some cs \<Rightarrow> cs) < 10"
    by (simp add: empty_snapshot_def)
  from generateLevels_simplified_fallback[OF h] h show ?thesis by simp
qed

section \<open>The time-of-day multiplier of the full ensemble\<close>

text \<open>
  C9. With the range \<open>23-04\<close> mapped to 0.3, \<open>getTimeOfDayMultiplier\<close> at hour 2 returns
  0.3: for a configuration whose table has this one entry, and for the default table of
  the constructor, where the four ranges before it do not contain the hour 2. The range
  \<open>23-04\<close> has its start after its end, and it matches exactly the hours from 23 on and the
  hours before 4.
\<close>

theorem getTimeOfDayMultiplier_wraparound:
  "getTimeOfDayMultiplier (cfg\<lparr>timeOfDayMultipliers := [(''23-04'', 0.3)]\<rparr>) 2 = 0.3
   \<and> getTimeOfDayMultiplier default_ensemble_config 2 = 0.3
   \<and> range_matches ''23-04'' hour = (hour \<ge> 23 \<or> hour < 4)"
  by (simp add: getTimeOfDayMultiplier_def default_ensemble_config_def
      default_timeOfDayMultipliers_def range_matches_def range_bounds_def Number_def
      digit_value_def)


section \<open>The meta-score of the full ensemble\<close>

lemma tally_full_step:
  "foldl (\<lambda>directions detector.
            directions(direction detector := directions (direction detector) + 1)) acc ds dir
   = acc dir + length (filter (\<lambda>d. direction d = dir) ds)"
  by (induction ds arbitrary: acc) auto

lemma tally_full_count: "tally_full ds dir = length (filter (\<lambda>d. direction d = dir) ds)"
  unfolding tally_full_def tally_full_step by simp

lemma directional_conj:
  "(direction x \<noteq> NEUTRAL \<and> direction x = SHORT) = (direction x = SHORT)"
  "(direction x \<noteq> NEUTRAL \<and> direction x = LONG) = (direction x = LONG)"
  by auto

lemma agreement_full_majority:
  "majorityDirection (calculateDetectorAgreement_full ds) \<noteq> NEUTRAL"
  by (simp add: calculateDetectorAgreement_full_def Let_def majorityEntry_eq)

lemma agreement_full_count:
  "majorityCount (calculateDetectorAgreement_full ds)
     = length (agreeing (majorityDirection (calculateDetectorAgreement_full ds)) ds)"
  by (simp add: calculateDetectorAgreement_full_def Let_def majorityEntry_eq tally_full_count
      agreeing_def directional_conj)

lemma configured_weight_claimed:
  assumes "\<forall>n w. detectorWeights cfg n = Some w \<longrightarrow> 0 < w" and "name v \<noteq> None"
  shows "configured_weight cfg (name v) = claimed_weight cfg v"
proof -
  from assms(2) obtain nm where nm: "name v = Some nm" by auto
  show ?thesis
  proof (cases "detectorWeights cfg nm")
    case None
    then show ?thesis by (simp add: configured_weight_def claimed_weight_def nm)
  next
    case (Some w)
    with assms(1) have "0 < w" by blast
    with Some show ?thesis by (simp add: configured_weight_def claimed_weight_def nm)
  qed
qed

lemma claimed_weight_pos:
  assumes "\<forall>n w. detectorWeights cfg n = Some w \<longrightarrow> 0 < w"
  shows "0 < claimed_weight cfg v"
proof (cases "name v")
  case None
  then show ?thesis by (simp add: claimed_weight_def)
next
  case (Some nm)
  show ?thesis
  proof (cases "detectorWeights cfg nm")
    case None
    then show ?thesis by (simp add: claimed_weight_def Some)
  next
    case w: (Some w)
    with assms have "0 < w" by blast
    with w show ?thesis by (simp add: claimed_weight_def Some)
  qed
qed

text \<open>
  Weights added one after the other to a number that is not negative give a positive
  number, in every arithmetic in which a single such addition does.
\<close>

lemma foldl_add_pos:
  assumes "\<forall>a v. 0 \<le> a \<longrightarrow> 0 < js_add ar a (w v)"
    and "0 \<le> acc" and "vs \<noteq> []"
  shows "0 < foldl (\<lambda>s v. js_add ar s (w v)) acc vs"
  using assms(2-3)
proof (induction vs arbitrary: acc)
  case Nil
  then show ?case by simp
next
  case (Cons v vs)
  have step: "0 < js_add ar acc (w v)"
    using assms(1) Cons.prems by simp
  show ?case
  proof (cases "vs = []")
    case True
    then show ?thesis using step by simp
  next
    case False
    have "0 < foldl (\<lambda>s v. js_add ar s (w v)) (js_add ar acc (w v)) vs"
      using step False Cons.prems by (intro Cons.IH) simp_all
    then show ?thesis by simp
  qed
qed

text \<open>
  The loop of \<open>calculateMetaScore\<close>, run from any accumulator: it adds up the weighted
  scores and the weights of the agreeing verdicts, in their order, and collects their
  families.
\<close>

lemma metaScore_forEach_sums:
  assumes "majority \<noteq> NEUTRAL"
    and "\<forall>v\<in>set vs. direction v = majority \<longrightarrow> name v \<noteq> None"
  shows "metaScore_forEach ar cfg majority vs (ws, tw, fams) =
     Inr (foldl (\<lambda>s v. js_add ar s (js_mul ar (score v) (configured_weight cfg (name v))))
            ws (agreeing majority vs),
          foldl (\<lambda>s v. js_add ar s (configured_weight cfg (name v))) tw (agreeing majority vs),
          fold List.insert (map family (List.map_filter name (agreeing majority vs))) fams)"
  using assms(2)
proof (induction vs arbitrary: ws tw fams)
  case Nil
  then show ?case by (simp add: agreeing_def List.map_filter_simps)
next
  case (Cons v vs)
  show ?case
  proof (cases "direction v = majority")
    case True
    with Cons.prems obtain nm where nm: "name v = Some nm" by auto
    have ag: "agreeing majority (v # vs) = v # agreeing majority vs"
      using True by (simp add: agreeing_def)
    have ih: "metaScore_forEach ar cfg majority vs
        (js_add ar ws (js_mul ar (score v) (configured_weight cfg (Some nm))),
         js_add ar tw (configured_weight cfg (Some nm)),
         List.insert (family nm) fams) =
      Inr (foldl (\<lambda>s v. js_add ar s (js_mul ar (score v) (configured_weight cfg (name v))))
             (js_add ar ws (js_mul ar (score v) (configured_weight cfg (Some nm))))
             (agreeing majority vs),
           foldl (\<lambda>s v. js_add ar s (configured_weight cfg (name v)))
             (js_add ar tw (configured_weight cfg (Some nm))) (agreeing majority vs),
           fold List.insert (map family (List.map_filter name (agreeing majority vs)))
             (List.insert (family nm) fams))"
      using Cons.prems by (intro Cons.IH) simp
    show ?thesis
      using True assms(1) nm
      by (simp add: ag ih List.map_filter_simps Let_def)
  next
    case False
    have ag: "agreeing majority (v # vs) = agreeing majority vs"
      using False by (simp add: agreeing_def)
    have ih: "metaScore_forEach ar cfg majority vs (ws, tw, fams) =
      Inr (foldl (\<lambda>s v. js_add ar s (js_mul ar (score v) (configured_weight cfg (name v))))
             ws (agreeing majority vs),
           foldl (\<lambda>s v. js_add ar s (configured_weight cfg (name v))) tw (agreeing majority vs),
           fold List.insert (map family (List.map_filter name (agreeing majority vs))) fams)"
      using Cons.prems by (intro Cons.IH) simp
    show ?thesis using False by (simp only: ag metaScore_forEach.simps ih) simp
  qed
qed

lemma set_fold_insert: "set (fold List.insert xs ys) = set xs \<union> set ys"
  by (induction xs arbitrary: ys) auto

lemma distinct_fold_insert: "distinct ys \<Longrightarrow> distinct (fold List.insert xs ys)"
  by (induction xs arbitrary: ys) auto

lemma length_fold_insert: "length (fold List.insert xs []) = length (remdups xs)"
proof -
  have "length (fold List.insert xs []) = card (set (fold List.insert xs []))"
    by (simp add: distinct_card distinct_fold_insert)
  also have "\<dots> = card (set xs)" by (simp add: set_fold_insert)
  also have "\<dots> = length (remdups xs)" by (simp add: length_remdups_card_conv)
  finally show ?thesis .
qed

text \<open>
  With positive configured weights and named verdicts, \<open>calculateMetaScore\<close> returns 0
  when the weights of the agreeing verdicts add up to 0, and the meta-score of the
  specification otherwise, in any arithmetic.
\<close>

lemma calculateMetaScore_full_sums:
  assumes named: "\<forall>v\<in>set vs. direction v \<noteq> NEUTRAL \<longrightarrow> name v \<noteq> None"
    and weights: "\<forall>n w. detectorWeights cfg n = Some w \<longrightarrow> 0 < w"
  shows "calculateMetaScore_full ar cfg hour vs (calculateDetectorAgreement_full vs)
     = (if sum_in ar (map (claimed_weight cfg)
                (agreeing (majorityDirection (calculateDetectorAgreement_full vs)) vs)) = 0
        then Inr 0
        else Inr (metaScore_spec ar cfg hour
                    (majorityDirection (calculateDetectorAgreement_full vs)) vs))"
proof -
  let ?m = "majorityDirection (calculateDetectorAgreement_full vs)"
  let ?ag = "agreeing ?m vs"
  have m: "?m \<noteq> NEUTRAL" by (rule agreement_full_majority)
  have named': "\<forall>v\<in>set vs. direction v = ?m \<longrightarrow> name v \<noteq> None"
    using named m by auto
  have same: "\<And>v. v \<in> set ?ag \<Longrightarrow> configured_weight cfg (name v) = claimed_weight cfg v"
    using named' by (intro configured_weight_claimed[OF weights]) (simp add: agreeing_def)
  have ws: "foldl (\<lambda>s v. js_add ar s (js_mul ar (score v) (configured_weight cfg (name v)))) 0 ?ag
      = sum_in ar (map (\<lambda>v. js_mul ar (score v) (claimed_weight cfg v)) ?ag)"
    unfolding sum_in_def foldl_map
    by (rule foldl_cong) (simp_all add: same)
  have tw: "foldl (\<lambda>s v. js_add ar s (configured_weight cfg (name v))) 0 ?ag
      = sum_in ar (map (claimed_weight cfg) ?ag)"
    unfolding sum_in_def foldl_map
    by (rule foldl_cong) (simp_all add: same)
  show ?thesis
    by (simp add: calculateMetaScore_full_def metaScore_forEach_sums[OF m named'] ws tw
        metaScore_spec_def weighted_mean_def confluence_bonus_def families_def clamp_0_100_def
        length_fold_insert Let_def mult.commute)
qed

lemma total_weight_pos:
  assumes threshold: "minDetectorAgreement cfg \<le> majorityCount (calculateDetectorAgreement_full vs)"
    and atleast: "1 \<le> minDetectorAgreement cfg"
    and arithmetic: "\<forall>a v. 0 \<le> a \<longrightarrow> 0 < js_add ar a (claimed_weight cfg v)"
  shows "0 < sum_in ar (map (claimed_weight cfg)
               (agreeing (majorityDirection (calculateDetectorAgreement_full vs)) vs))"
proof -
  let ?ag = "agreeing (majorityDirection (calculateDetectorAgreement_full vs)) vs"
  have "1 \<le> length ?ag" using threshold atleast by (simp add: agreement_full_count)
  then have ne: "?ag \<noteq> []" by auto
  have "0 < foldl (\<lambda>s v. js_add ar s (claimed_weight cfg v)) 0 ?ag"
    using arithmetic _ ne by (rule foldl_add_pos) simp
  then show ?thesis by (simp add: sum_in_def foldl_map)
qed

subsection \<open>Exact and double arithmetic\<close>

text \<open>
  In exact arithmetic the meta-score of the specification is the formula as one writes it
  down, whatever the order of the verdicts.
\<close>

lemma foldl_add_sum_list: "foldl (\<lambda>a b. a + b) acc xs = acc + sum_list (xs :: real list)"
  by (induction xs arbitrary: acc) simp_all

lemma metaScore_spec_exact:
  "metaScore_spec exact cfg hour majority vs =
     clamp_0_100
       ((sum_list (map (\<lambda>v. score v * claimed_weight cfg v) (agreeing majority vs))
           / sum_list (map (claimed_weight cfg) (agreeing majority vs))
         + confluence_bonus (agreeing majority vs))
        * getTimeOfDayMultiplier cfg hour)"
  by (simp add: metaScore_spec_def weighted_mean_def sum_in_def exact_def foldl_add_sum_list)

text \<open>
  Rounding to the nearest double: the size of a number other than 0 lies between 2 to its
  exponent and twice that; a positive number is rounded to a positive number; an integer
  below \<open>2^53\<close> is a double.
\<close>

lemma ilog2_nonneg: "0 \<le> ilog2 n"
  by (induction n rule: ilog2.induct) (simp add: ilog2.simps)

lemma ilog2_bounds:
  "1 \<le> n \<Longrightarrow> 2 ^ nat (ilog2 n) \<le> n \<and> n < 2 * 2 ^ nat (ilog2 n)"
proof (induction n rule: ilog2.induct)
  case (1 n)
  show ?case
  proof (cases "n < 2")
    case True
    with 1 have "n = 1" by simp
    then show ?thesis by (simp add: ilog2.simps)
  next
    case False
    then have ih: "2 ^ nat (ilog2 (n div 2)) \<le> n div 2 \<and> n div 2 < 2 * 2 ^ nat (ilog2 (n div 2))"
      using 1 by simp
    have s: "nat (ilog2 n) = Suc (nat (ilog2 (n div 2)))"
      using False ilog2_nonneg[of "n div 2"] by (subst ilog2.simps) (simp add: nat_add_distrib)
    show ?thesis using ih by (simp only: s power_Suc) linarith
  qed
qed

lemma ilog2_powi:
  assumes "1 \<le> n"
  shows "2 powi ilog2 n \<le> real_of_int n" and "real_of_int n + 1 \<le> 2 * 2 powi ilog2 n"
proof -
  have p: "(2::real) powi ilog2 n = 2 ^ nat (ilog2 n)"
    using ilog2_nonneg[of n] by (simp add: power_int_def)
  have "2 ^ nat (ilog2 n) \<le> n" and "n + 1 \<le> 2 * 2 ^ nat (ilog2 n)"
    using ilog2_bounds[OF assms] by simp_all
  then have "real_of_int (2 ^ nat (ilog2 n)) \<le> real_of_int n"
    and "real_of_int (n + 1) \<le> real_of_int (2 * 2 ^ nat (ilog2 n))"
    by (simp_all only: of_int_le_iff)
  then show "2 powi ilog2 n \<le> real_of_int n" and "real_of_int n + 1 \<le> 2 * 2 powi ilog2 n"
    by (simp_all add: p)
qed

lemma exponent_bounds:
  assumes "x \<noteq> 0"
  shows "2 powi exponent x \<le> \<bar>x\<bar>" and "\<bar>x\<bar> < 2 * 2 powi exponent x"
proof -
  have both: "2 powi exponent x \<le> \<bar>x\<bar> \<and> \<bar>x\<bar> < 2 * 2 powi exponent x"
  proof (cases "1 \<le> \<bar>x\<bar>")
    case True
    then have n: "1 \<le> \<lfloor>\<bar>x\<bar>\<rfloor>" by (simp add: le_floor_iff)
    have e: "exponent x = ilog2 \<lfloor>\<bar>x\<bar>\<rfloor>" using True by (simp add: exponent_def)
    have "real_of_int \<lfloor>\<bar>x\<bar>\<rfloor> \<le> \<bar>x\<bar>" and "\<bar>x\<bar> < real_of_int \<lfloor>\<bar>x\<bar>\<rfloor> + 1" by linarith+
    then show ?thesis
      using ilog2_powi[OF n] unfolding e by linarith
  next
    case False
    define y where "y = 1 / \<bar>x\<bar>"
    define k where "k = ilog2 \<lfloor>y\<rfloor>"
    define P :: real where "P = 2 powi k"
    have xpos: "0 < \<bar>x\<bar>" using assms by simp
    have y1: "1 < y" using False xpos by (simp add: y_def)
    then have n: "1 \<le> \<lfloor>y\<rfloor>" by (simp add: le_floor_iff)
    have Ppos: "0 < P" by (simp add: P_def zero_less_power_int)
    have "real_of_int \<lfloor>y\<rfloor> \<le> y" and "y < real_of_int \<lfloor>y\<rfloor> + 1" by linarith+
    then have yb: "P \<le> y" "y < 2 * P"
      using ilog2_powi[OF n] unfolding k_def[symmetric] P_def[symmetric] by linarith+
    have x: "\<bar>x\<bar> = 1 / y" using xpos by (simp add: y_def)
    have m: "(2::real) powi (- k) = 1 / P" by (simp add: P_def power_int_minus_divide)
    have m1: "(2::real) powi (- k - 1) = 1 / (2 * P)"
    proof -
      have "(2::real) powi (- k - 1 + 1) = 2 * 2 powi (- k - 1)"
        by (rule power_int_add_1') simp
      then have "1 / P = 2 * (2::real) powi (- k - 1)" using m by simp
      then show ?thesis by (simp add: field_simps)
    qed
    show ?thesis
    proof (cases "y = P")
      case True
      then have e: "exponent x = - k"
        using False by (simp add: exponent_def Let_def y_def k_def P_def)
      have "1 / P < 2 / P" using Ppos by (intro divide_strict_right_mono) simp_all
      then have "1 / P < 2 * (1 / P)" by simp
      then show ?thesis using True by (simp add: e m x)
    next
      case ne: False
      then have e: "exponent x = - k - 1"
        using False by (simp add: exponent_def Let_def y_def k_def P_def)
      have lt: "P < y" using yb(1) ne by simp
      have "1 / (2 * P) \<le> 1 / y"
        using yb(2) y1 Ppos by (simp add: frac_le)
      moreover have "1 / y < 2 * (1 / (2 * P))"
        using lt Ppos y1 by (simp add: field_simps)
      ultimately show ?thesis by (simp add: e m1 x)
    qed
  qed
  from both show "2 powi exponent x \<le> \<bar>x\<bar>" and "\<bar>x\<bar> < 2 * 2 powi exponent x" by simp_all
qed

lemma round_even_of_int: "round_even (of_int m) = m"
  by (simp add: round_even_def)

lemma round_even_ge_floor: "\<lfloor>x\<rfloor> \<le> round_even x"
  by (simp add: round_even_def Let_def)

lemma to_double_pos:
  assumes "0 < x"
  shows "0 < to_double x"
proof -
  define e where "e = exponent x - 52"
  have x: "\<bar>x\<bar> = x" "x \<noteq> 0" using assms by simp_all
  have u: "0 < (2::real) powi e" by (simp add: zero_less_power_int)
  have "(2::real) powi exponent x = 2 powi (e + 52)" by (simp add: e_def)
  also have "\<dots> = 2 powi e * 2 powi 52" by (rule power_int_add) simp
  finally have "2 powi e * 2 powi 52 \<le> x"
    using exponent_bounds(1)[OF x(2)] x(1) by simp
  moreover have "(1::real) \<le> 2 powi 52" by simp
  ultimately have "2 powi e * 1 \<le> x"
    using u by (meson mult_left_mono less_imp_le order_trans)
  then have "1 \<le> x / 2 powi e" using u by (simp add: field_simps)
  then have "1 \<le> \<lfloor>x / 2 powi e\<rfloor>" by (simp add: le_floor_iff)
  then have "0 < round_even (x / 2 powi e)"
    using round_even_ge_floor[of "x / 2 powi e"] by linarith
  then show ?thesis
    using x(2) u by (simp add: to_double_def e_def[symmetric])
qed

lemma to_double_of_int:
  assumes "\<bar>n\<bar> < 2 ^ 53"
  shows "to_double (of_int n) = of_int n"
proof (cases "n = 0")
  case True
  then show ?thesis by (simp add: to_double_def)
next
  case False
  define k where "k = ilog2 \<bar>n\<bar>"
  have n1: "1 \<le> \<bar>n\<bar>" using False by simp
  have e: "exponent (of_int n) = k"
    using n1 by (simp add: exponent_def k_def flip: of_int_abs)
  have k0: "0 \<le> k" by (simp add: k_def ilog2_nonneg)
  have "(2::int) ^ nat k < 2 ^ 53"
    using ilog2_bounds[OF n1] assms unfolding k_def[symmetric] by linarith
  then have "nat k < 53" by (rule power_less_imp_less_exp[rotated]) simp
  then have k52: "k \<le> 52" by simp
  define j where "j = nat (52 - k)"
  have "(2::real) powi (k - 52) = 2 powi (- int j)"
    using k52 by (simp add: j_def)
  also have "\<dots> = 1 / 2 ^ j"
    by (simp only: power_int_minus_divide power_int_of_nat)
  finally have u: "(2::real) powi (k - 52) = 1 / 2 ^ j" .
  have "real_of_int n / 2 powi (k - 52) = of_int (n * 2 ^ j)"
    by (simp only: u) simp
  then have "round_even (real_of_int n / 2 powi (k - 52)) = n * 2 ^ j"
    by (simp only: round_even_of_int)
  then have "to_double (of_int n) = of_int (n * 2 ^ j) * (1 / 2 ^ j)"
    using False by (simp add: to_double_def e u)
  then show ?thesis by simp
qed

lemma to_double_numeral:
  assumes "numeral w < (2::int) ^ 53"
  shows "to_double (numeral w) = numeral w"
  using to_double_of_int[of "numeral w"] assms by simp

lemma to_double_1: "to_double 1 = 1"
  using to_double_of_int[of 1] by simp

text \<open>
  The hypothesis on the arithmetic that the statement on the meta-score makes holds for
  the exact operations and for the operations of the program, whenever the configured
  weights are positive; and a configuration of positive weights has positive weights when
  its numbers are rounded to doubles.
\<close>

lemma double_add_weight:
  assumes "\<forall>n w. detectorWeights cfg n = Some w \<longrightarrow> 0 < w"
  shows "\<forall>a v. 0 \<le> a \<longrightarrow> 0 < js_add double a (claimed_weight cfg v)"
proof (intro allI impI)
  fix a :: real and v
  assume "0 \<le> a"
  then have "0 < a + claimed_weight cfg v"
    using claimed_weight_pos[OF assms, of v] by simp
  then show "0 < js_add double a (claimed_weight cfg v)"
    by (simp add: double_def rounded_def to_double_pos)
qed

lemma exact_add_weight:
  assumes "\<forall>n w. detectorWeights cfg n = Some w \<longrightarrow> 0 < w"
  shows "\<forall>a v. 0 \<le> a \<longrightarrow> 0 < js_add exact a (claimed_weight cfg v)"
proof (intro allI impI)
  fix a :: real and v
  assume "0 \<le> a"
  then show "0 < js_add exact a (claimed_weight cfg v)"
    using claimed_weight_pos[OF assms, of v] by (simp add: exact_def)
qed

lemma as_doubles_weights_pos:
  assumes "\<forall>n w. detectorWeights cfg n = Some w \<longrightarrow> 0 < w"
  shows "\<forall>n w. detectorWeights (as_doubles cfg) n = Some w \<longrightarrow> 0 < w"
  using assms by (auto simp: as_doubles_def to_double_pos)

subsection \<open>The formula of the meta-score\<close>

lemma default_detectorWeights_pos:
  "\<forall>n w. detectorWeights default_ensemble_config n = Some w \<longrightarrow> 0 < w"
  by (auto simp: default_ensemble_config_def default_detectorWeights_def split: if_splits)

lemma three_longs_agreement:
  "majorityCount (calculateDetectorAgreement_full three_longs) = 3"
  "majorityDirection (calculateDetectorAgreement_full three_longs) = LONG"
  by (simp_all add: calculateDetectorAgreement_full_def Let_def majorityEntry_eq tally_full_count
      three_longs_def verdict_of_def)

lemma three_longs_spec:
  "metaScore_spec exact default_ensemble_config 12 LONG three_longs = 80"
  "metaScore_spec exact default_ensemble_config 5 LONG three_longs = 88"
  by (simp_all add: metaScore_spec_def weighted_mean_def sum_in_def exact_def confluence_bonus_def
      families_def clamp_0_100_def agreeing_def three_longs_def verdict_of_def
      List.map_filter_simps family_def claimed_weight_def default_ensemble_config_def
      default_detectorWeights_def getTimeOfDayMultiplier_def default_timeOfDayMultipliers_def
      range_matches_def range_bounds_def Number_def digit_value_def)

text \<open>
  The rounding shows on two \<open>LONG\<close> verdicts of score 55 from \<open>momentum_breakout\<close> and
  \<open>volume_spike\<close>, at noon under the default configuration. The weights are 1.2 and 1.0;
  exactly, the mean is 55 and the meta-score 60. In double arithmetic 1.2 is
  \<open>5404319552844595 / 2^52\<close>, the weights add up to a double just above 2.2, the mean is
  rounded to the double below 55, and the meta-score is \<open>60 - 1 / 2^47\<close>, which the
  program prints as 59.99999999999999.
\<close>

lemma fifty_fives_agreement:
  "majorityCount (calculateDetectorAgreement_full fifty_fives) = 2"
  "majorityDirection (calculateDetectorAgreement_full fifty_fives) = LONG"
  by (simp_all add: calculateDetectorAgreement_full_def Let_def majorityEntry_eq tally_full_count
      fifty_fives_def verdict_of_def)

lemma fifty_fives_exact:
  "calculateMetaScore_full exact default_ensemble_config 12 fifty_fives
     (calculateDetectorAgreement_full fifty_fives) = Inr 60"
  by (simp add: calculateMetaScore_full_def fifty_fives_agreement)
     (simp add: fifty_fives_def verdict_of_def exact_def default_ensemble_config_def
        default_detectorWeights_def configured_weight_def family_def getTimeOfDayMultiplier_def
        default_timeOfDayMultipliers_def range_matches_def range_bounds_def Number_def
        digit_value_def)

lemma rounding_steps:
  "to_double (6 / 5) = 5404319552844595 / 4503599627370496"
  "to_double (5404319552844595 / 4503599627370496) = 5404319552844595 / 4503599627370496"
  "to_double (297237575406452725 / 4503599627370496) = 66"
  "to_double (9907919180215091 / 4503599627370496) = 2476979795053773 / 1125899906842624"
  "to_double (136233888727957504 / 2476979795053773) = 7740561859543039 / 140737488355328"
  "to_double (8444249301319679 / 140737488355328) = 8444249301319679 / 140737488355328"
  by (simp_all add: to_double_def exponent_def ilog2.simps round_even_def)

lemma fifty_fives_double:
  "calculateMetaScore_full double (as_doubles default_ensemble_config) 12 fifty_fives
     (calculateDetectorAgreement_full fifty_fives) = Inr (60 - 1 / 2 ^ 47)"
  by (simp add: calculateMetaScore_full_def fifty_fives_agreement)
     (simp add: fifty_fives_def verdict_of_def double_def rounded_def as_doubles_def
        default_ensemble_config_def default_detectorWeights_def configured_weight_def family_def
        getTimeOfDayMultiplier_def default_timeOfDayMultipliers_def range_matches_def
        range_bounds_def Number_def digit_value_def to_double_1 to_double_numeral
        rounding_steps Let_def)

text \<open>
  C4, as amended. In the full version of the ensemble, for every verdict list that passes
  the agreement threshold (the majority count is at least \<open>minDetectorAgreement\<close>, which is
  at least 1), \<open>calculateMetaScore\<close> returns the meta-score of the specification: the
  weighted mean of the scores of the verdicts agreeing with the majority direction, each
  weighted by the weight configured for its detector (1.0 when none is configured), plus 5
  points per distinct detector family beyond the first and at most 20, times the
  time-of-day multiplier of the hour, clamped to the interval from 0 to 100. This holds
  when every configured weight is positive and every verdict with a direction has a name,
  and it holds in the arithmetic of the program: the sums of the weighted mean run through
  the agreeing verdicts in the order of the list, and they, the products and the quotient
  are taken with the program's operations, of which the proof uses only that adding a
  weight to a number that is not negative gives a positive number. The exact operations
  and the operations on doubles are of this kind.
\<close>

theorem calculateMetaScore_full_formula:
  assumes threshold: "minDetectorAgreement cfg \<le> majorityCount (calculateDetectorAgreement_full vs)"
    and atleast: "1 \<le> minDetectorAgreement cfg"
    and named: "\<forall>v\<in>set vs. direction v \<noteq> NEUTRAL \<longrightarrow> name v \<noteq> None"
    and weights: "\<forall>n w. detectorWeights cfg n = Some w \<longrightarrow> 0 < w"
    and arithmetic: "\<forall>a v. 0 \<le> a \<longrightarrow> 0 < js_add ar a (claimed_weight cfg v)"
  shows "calculateMetaScore_full ar cfg hour vs (calculateDetectorAgreement_full vs)
           = Inr (metaScore_spec ar cfg hour
                    (majorityDirection (calculateDetectorAgreement_full vs)) vs)"
  using total_weight_pos[OF threshold atleast arithmetic]
  by (simp add: calculateMetaScore_full_sums[OF named weights])

theorem calculateMetaScore_full_formula_witness:
  "minDetectorAgreement default_ensemble_config
     \<le> majorityCount (calculateDetectorAgreement_full three_longs)
   \<and> 1 \<le> minDetectorAgreement default_ensemble_config
   \<and> map name three_longs
       = [Some ''volume_spike'', Some ''volatility_squeeze'', Some ''rsi_momentum'']
   \<and> calculateMetaScore_full exact default_ensemble_config 12 three_longs
        (calculateDetectorAgreement_full three_longs)
      = Inr (metaScore_spec exact default_ensemble_config 12 LONG three_longs)
   \<and> metaScore_spec exact default_ensemble_config 12 LONG three_longs = 80
   \<and> minDetectorAgreement (as_doubles default_ensemble_config)
     \<le> majorityCount (calculateDetectorAgreement_full fifty_fives)
   \<and> map name fifty_fives = [Some ''momentum_breakout'', Some ''volume_spike'']
   \<and> calculateMetaScore_full double (as_doubles default_ensemble_config) 12 fifty_fives
        (calculateDetectorAgreement_full fifty_fives)
      = Inr (metaScore_spec double (as_doubles default_ensemble_config) 12 LONG fifty_fives)
   \<and> metaScore_spec double (as_doubles default_ensemble_config) 12 LONG fifty_fives
      = 60 - 1 / 2 ^ 47"
proof -
  have h1: "minDetectorAgreement default_ensemble_config
     \<le> majorityCount (calculateDetectorAgreement_full three_longs)"
    by (simp add: three_longs_agreement default_ensemble_config_def)
  have h2: "1 \<le> minDetectorAgreement default_ensemble_config"
    by (simp add: default_ensemble_config_def)
  have h3: "\<forall>v\<in>set three_longs. direction v \<noteq> NEUTRAL \<longrightarrow> name v \<noteq> None"
    by (simp add: three_longs_def verdict_of_def)
  note h4 = default_detectorWeights_pos
  note h5 = exact_add_weight[OF h4]
  have n: "map name three_longs
       = [Some ''volume_spike'', Some ''volatility_squeeze'', Some ''rsi_momentum'']"
    by (simp add: three_longs_def verdict_of_def)
  have d1: "minDetectorAgreement (as_doubles default_ensemble_config)
     \<le> majorityCount (calculateDetectorAgreement_full fifty_fives)"
    by (simp add: fifty_fives_agreement as_doubles_def default_ensemble_config_def)
  have d2: "1 \<le> minDetectorAgreement (as_doubles default_ensemble_config)"
    by (simp add: as_doubles_def default_ensemble_config_def)
  have d3: "\<forall>v\<in>set fifty_fives. direction v \<noteq> NEUTRAL \<longrightarrow> name v \<noteq> None"
    by (simp add: fifty_fives_def verdict_of_def)
  note d4 = as_doubles_weights_pos[OF h4]
  note d5 = double_add_weight[OF d4]
  have m: "map name fifty_fives = [Some ''momentum_breakout'', Some ''volume_spike'']"
    by (simp add: fifty_fives_def verdict_of_def)
  from calculateMetaScore_full_formula[OF h1 h2 h3 h4 h5, of 12] h1 n three_longs_spec(1)
       calculateMetaScore_full_formula[OF d1 d2 d3 d4 d5, of 12] d1 m fifty_fives_double h2
  show ?thesis by (simp add: three_longs_agreement fifty_fives_agreement)
qed

text \<open>
  C4 as it is stated fails in two places. The simplified version passes three \<open>LONG\<close>
  verdicts of weight 1.0 and scores 80, 70 and 60, of three families, with a majority
  count of 3: their mean is 70, the formula of the claim gives 80 at noon and at most 88 at
  any hour, and the simplified \<open>calculateMetaScore\<close> returns 90, for it adds 10 points per
  agreeing verdict beyond the first and has no time-of-day multiplier. The full version,
  configured with weight 0 for \<open>momentum_breakout\<close>, takes the weight 1.0 in its place:
  for scores 80 and 50 it returns 70 at noon, where the weighted mean of the claim is 50
  and its meta-score 55. The program returns this 90 and this 70: no operation of the two
  runs is rounded.
\<close>

theorem calculateMetaScore_formula_counterexample:
  "minDetectorAgreement default_ensemble_config
      \<le> majorityCount (calculateDetectorAgreement_simplified three_longs)
   \<and> majorityDirection (calculateDetectorAgreement_simplified three_longs) = LONG
   \<and> calculateMetaScore_simplified default_ensemble_config three_longs
        (calculateDetectorAgreement_simplified three_longs) = 90
   \<and> metaScore_spec exact default_ensemble_config 12 LONG three_longs = 80
   \<and> metaScore_spec exact default_ensemble_config 5 LONG three_longs = 88
   \<and> minDetectorAgreement zero_weight_config
      \<le> majorityCount (calculateDetectorAgreement_full mixed_longs)
   \<and> majorityDirection (calculateDetectorAgreement_full mixed_longs) = LONG
   \<and> calculateMetaScore_full exact zero_weight_config 12 mixed_longs
        (calculateDetectorAgreement_full mixed_longs) = Inr 70
   \<and> metaScore_spec exact zero_weight_config 12 LONG mixed_longs = 55"
proof -
  have a: "majorityCount (calculateDetectorAgreement_simplified three_longs) = 3"
     "majorityDirection (calculateDetectorAgreement_simplified three_longs) = LONG"
    by (simp_all add: calculateDetectorAgreement_simplified_def Let_def majorityEntry_eq
        tally_simplified_count three_longs_def verdict_of_def)
  have b: "calculateMetaScore_simplified default_ensemble_config three_longs
        (calculateDetectorAgreement_simplified three_longs) = 90"
    by (simp add: calculateMetaScore_simplified_def a default_ensemble_config_def Let_def)
       (simp add: three_longs_def verdict_of_def weight_or_1_def
          calculateDetectorAgreement_simplified_def Let_def majorityEntry_eq tally_simplified_count)
  have c: "majorityCount (calculateDetectorAgreement_full mixed_longs) = 2"
     "majorityDirection (calculateDetectorAgreement_full mixed_longs) = LONG"
    by (simp_all add: calculateDetectorAgreement_full_def Let_def majorityEntry_eq tally_full_count
        mixed_longs_def verdict_of_def)
  have d: "calculateMetaScore_full exact zero_weight_config 12 mixed_longs
        (calculateDetectorAgreement_full mixed_longs) = Inr 70"
    by (simp add: calculateMetaScore_full_def c)
       (simp add: mixed_longs_def verdict_of_def exact_def zero_weight_config_def
          configured_weight_def family_def getTimeOfDayMultiplier_def
          default_timeOfDayMultipliers_def range_matches_def range_bounds_def Number_def
          digit_value_def)
  have e: "metaScore_spec exact zero_weight_config 12 LONG mixed_longs = 55"
    by (simp add: metaScore_spec_def weighted_mean_def sum_in_def exact_def confluence_bonus_def
        families_def clamp_0_100_def agreeing_def mixed_longs_def verdict_of_def
        List.map_filter_simps family_def claimed_weight_def zero_weight_config_def
        getTimeOfDayMultiplier_def default_timeOfDayMultipliers_def range_matches_def
        range_bounds_def Number_def digit_value_def)
  show ?thesis
    using b d e three_longs_spec
    by (simp add: a c) (simp add: default_ensemble_config_def zero_weight_config_def)
qed


section \<open>The momentum breakout detector\<close>

lemma map_prop_Some: "map_prop key sel (map Some cs) = Inr (map sel cs)"
  by (induction cs) (simp_all add: read_prop_def)

lemma Math_max_ge: "x \<in> set xs \<Longrightarrow> x \<le> Math_max xs"
  by (induction xs rule: Math_max.induct) auto

lemma Math_max_mem: "xs \<noteq> [] \<Longrightarrow> Math_max xs \<in> set xs"
  by (induction xs rule: Math_max.induct) (auto simp: max_def)

lemma slice_last_nonempty: "xs \<noteq> [] \<Longrightarrow> slice_last n xs \<noteq> []"
  by (cases xs) (auto simp: slice_last_def)

lemma last_slice_last: "xs \<noteq> [] \<Longrightarrow> last (slice_last n xs) = last xs"
  by (simp add: slice_last_def)

lemma set_slice_last: "set (slice_last n xs) \<subseteq> set xs"
  by (simp add: slice_last_def set_drop_subset)

text \<open>
  The window of \<open>recentHigh\<close> ends with the current candle, so the current high is never
  above \<open>recentHigh\<close>; with positive prices it is then below \<open>recentHigh\<close> raised by any
  positive percentage, and \<open>isBreakout\<close> is false.
\<close>

lemma last_le_recentHigh: "highs \<noteq> [] \<Longrightarrow> last highs \<le> recentHigh cfg highs"
  unfolding recentHigh_def
  by (metis Math_max_ge last_in_set last_slice_last slice_last_nonempty)

lemma recentHigh_pos: "highs \<noteq> [] \<Longrightarrow> \<forall>h\<in>set highs. 0 < h \<Longrightarrow> 0 < recentHigh cfg highs"
  unfolding recentHigh_def
  using Math_max_mem[OF slice_last_nonempty, of highs "breakoutPeriod cfg"]
    set_slice_last[of "breakoutPeriod cfg" highs]
  by auto

lemma no_breakout:
  assumes "highs \<noteq> []" "0 < recentHigh cfg highs" "0 < minBreakoutPercent cfg"
  shows "\<not> isBreakout cfg highs"
proof -
  have "last highs \<le> recentHigh cfg highs" using assms(1) by (rule last_le_recentHigh)
  moreover have "recentHigh cfg highs < recentHigh cfg highs * (1 + minBreakoutPercent cfg / 100)"
    using assms(2,3) by (simp add: algebra_simps)
  ultimately show ?thesis by (simp add: isBreakout_def)
qed

lemma momentumBreakout_try_present:
  assumes "tf15m d = Some (map Some cs)" "breakoutPeriod cfg + 5 \<le> length cs"
  shows "momentumBreakout_try (Some d) cfg =
     Inr (momentumBreakout_verdict cfg (map close cs) (map volume cs) (map high cs))"
  using assms by (simp add: momentumBreakout_try_def timeframe_def map_prop_Some)

lemma momentumBreakoutDetector_present:
  assumes "breakoutPeriod cfg + 5 \<le> length cs"
  shows "momentumBreakoutDetector (Some (snapshot_15m cs)) (Some cfg) =
     Inr (momentumBreakout_verdict cfg (map close cs) (map volume cs) (map high cs))"
  using momentumBreakout_try_present[OF _ assms, of "snapshot_15m cs"]
  by (simp add: momentumBreakoutDetector_def destructure_def snapshot_15m_def)

text \<open>With positive highs the detector never answers \<open>LONG\<close>, whatever the volumes.\<close>

lemma momentumBreakout_never_LONG:
  assumes "tf15m d = Some (map Some cs)" "\<forall>c\<in>set cs. 0 < high c" "0 < minBreakoutPercent cfg"
  shows "\<exists>v. momentumBreakoutDetector (Some d) (Some cfg) = Inr v \<and> direction v \<noteq> LONG"
proof (cases "breakoutPeriod cfg + 5 \<le> length cs")
  case True
  then have ne: "map high cs \<noteq> []" by auto
  have "\<not> isBreakout cfg (map high cs)"
    using no_breakout[OF ne recentHigh_pos[OF ne] assms(3)] assms(2) by auto
  then show ?thesis
    using momentumBreakout_try_present[OF assms(1) True]
    by (simp add: momentumBreakoutDetector_def destructure_def momentumBreakout_verdict_def Let_def)
next
  case False
  then show ?thesis using assms(1)
    by (simp add: momentumBreakoutDetector_def destructure_def momentumBreakout_try_def
        timeframe_def neutral_def)
qed

lemma sqrt_9_4: "sqrt (9 / 4) = 3 / 2"
  by (simp add: real_sqrt_divide)

lemma flat_bars_fields:
  "map close flat_bars =
     [100, 100, 100, 100, 100, 100, 100, 100, 100, 100, 100, 100, 100, 100, 100, 100, 100, 100, 100, 100, 100, 100, 100, 100]"
  "map high flat_bars =
     [100, 100, 100, 100, 100, 100, 100, 100, 100, 100, 100, 100, 100, 100, 100, 100, 100, 100, 100, 100, 100, 100, 100, 100]"
  "map volume flat_bars =
     [4, 4, 4, 4, 9, 4, 4, 4, 4, 4, 9, 4, 4, 4, 4, 4, 4, 4, 4, 4, 4, 4, 4, 4]"
  "length flat_bars = 24"
  by (simp_all add: flat_bars_def bar_def)

lemma default_config_fields:
  "breakoutPeriod default_config = 20" "volumeMultiplier default_config = 3 / 2"
  "minBreakoutPercent default_config = 1"
  by (simp_all add: default_config_def)

lemma window_zscore:
  "volumeZScore default_config
     [4, 4, 4, 4, 9, 4, 4, 4, 4, 4, 9, 4, 4, 4, 4, 4, 4, 4, 4, 4, 4, 4, 4, 4, 9] = 3"
  by (simp add: volumeZScore_def default_config_fields slice_last_def calculateZScore_def
      reduce_sum_def Let_def power2_eq_square sqrt_9_4)

lemma window_volumeMA:
  "volumeMA default_config
     [4, 4, 4, 4, 9, 4, 4, 4, 4, 4, 9, 4, 4, 4, 4, 4, 4, 4, 4, 4, 4, 4, 4, 4, 9] = 9 / 2"
  by (simp add: volumeMA_def default_config_fields slice_last_def reduce_sum_def)

lemma breakout_bars_fields:
  "length breakout_bars = 25"
  "map high breakout_bars =
     [100, 100, 100, 100, 100, 100, 100, 100, 100, 100, 100, 100, 100, 100, 100, 100, 100, 100, 100, 100, 100, 100, 100, 100, 102]"
  "map close breakout_bars =
     [100, 100, 100, 100, 100, 100, 100, 100, 100, 100, 100, 100, 100, 100, 100, 100, 100, 100, 100, 100, 100, 100, 100, 100, 102]"
  "map volume breakout_bars =
     [4, 4, 4, 4, 9, 4, 4, 4, 4, 4, 9, 4, 4, 4, 4, 4, 4, 4, 4, 4, 4, 4, 4, 4, 9]"
  by (simp_all add: breakout_bars_def flat_bars_fields) (simp_all add: bar_def)

lemma gapdown_bars_fields:
  "length gapdown_bars = 25"
  "map high gapdown_bars =
     [110, 110, 110, 110, 110, 110, 110, 110, 110, 110, 110, 110, 110, 110, 110, 110, 110, 110, 110, 110, 110, 110, 110, 110, 98]"
  "map low gapdown_bars =
     [100, 100, 100, 100, 100, 100, 100, 100, 100, 100, 100, 100, 100, 100, 100, 100, 100, 100, 100, 100, 100, 100, 100, 100, 97]"
  "map close gapdown_bars =
     [105, 105, 105, 105, 105, 105, 105, 105, 105, 105, 105, 105, 105, 105, 105, 105, 105, 105, 105, 105, 105, 105, 105, 105, 97.5]"
  "map volume gapdown_bars =
     [4, 4, 4, 4, 9, 4, 4, 4, 4, 4, 9, 4, 4, 4, 4, 4, 4, 4, 4, 4, 4, 4, 4, 4, 9]"
  by (simp_all add: gapdown_bars_def wide_bars_def bar_def)

text \<open>
  The rounding of the program in the \<open>SHORT\<close> branch. On \<open>plunge_bars\<close> the close of 71
  is 29 percent below the \<open>recentLow\<close> of 100. The program divides 29 by 100, which gives
  the double below 0.29, and multiplies by 100 and by 1.5, which gives the double below
  43.5: the score is 43, where exact arithmetic gives 43.5 and the score 44.
\<close>

lemma plunge_bars_fields:
  "length plunge_bars = 25"
  "map high plunge_bars =
     [100, 100, 100, 100, 100, 100, 100, 100, 100, 100, 100, 100, 100, 100, 100, 100, 100, 100, 100, 100, 100, 100, 100, 100, 100]"
  "map close plunge_bars =
     [100, 100, 100, 100, 100, 100, 100, 100, 100, 100, 100, 100, 100, 100, 100, 100, 100, 100, 100, 100, 100, 100, 100, 100, 71]"
  "map volume plunge_bars =
     [4, 4, 4, 4, 9, 4, 4, 4, 4, 4, 9, 4, 4, 4, 4, 4, 4, 4, 4, 4, 4, 4, 4, 4, 9]"
  by (simp_all add: plunge_bars_def flat_bars_fields) (simp_all add: bar_def)

lemma plunge_rounding:
  "to_double (29 / 100) = 5224175567749775 / 18014398509481984"
  "to_double (130604389193744375 / 4503599627370496) = 8162774324609023 / 281474976710656"
  "to_double (24488322973827069 / 562949953421312) = 6122080743456767 / 140737488355328"
  by (simp_all add: to_double_def exponent_def ilog2.simps round_even_def)

lemma plunge_bars_strength:
  "recentLow default_config (map high plunge_bars) = 100"
  "breakdownStrength default_config (map close plunge_bars) (map high plunge_bars)
     = 29 - 1 / 2 ^ 48"
proof -
  show rl: "recentLow default_config (map high plunge_bars) = 100"
    by (simp add: plunge_bars_fields recentLow_def default_config_fields slice_last_def)
  show "breakdownStrength default_config (map close plunge_bars) (map high plunge_bars)
     = 29 - 1 / 2 ^ 48"
    by (simp add: breakdownStrength_def rl)
       (simp add: plunge_bars_fields to_double_numeral plunge_rounding)
qed

lemma plunge_bars_verdict:
  "momentumBreakoutDetector (Some (snapshot_15m plunge_bars)) (Some default_config)
     = Inr \<lparr>name = Some ''momentum_breakout'', score = 43, direction = SHORT,
            reason = Formatted ''Breakdown'' [29],
            metadata = Some [(''recentHigh'', 100), (''recentLow'', 100), (''volumeZScore'', 3),
                             (''breakoutStrength'', 0)],
            weight = None\<rparr>"
  by (simp add: momentumBreakoutDetector_present plunge_bars_fields(1) default_config_fields
        momentumBreakout_verdict_def hasVolumeSpike_def plunge_bars_strength)
     (simp add: plunge_bars_fields window_zscore window_volumeMA isBreakout_def recentHigh_def
        default_config_fields slice_last_def Math_round_def toFixed_def plunge_rounding)

text \<open>
  C1. The claim: on 25 candles whose last high is 2 percent above the highest high of the
  20 candles before it, with a last volume of twice the 20-bar mean and a volume z-score
  above 1, the detector answers \<open>LONG\<close> with a positive score. The code does not: on
  \<open>breakout_bars\<close>, which has all this (whether the 20 bars of the mean and of the z-score
  end with the last candle or before it), it answers \<open>NEUTRAL\<close> with score 0
  and the reason \<open>No breakout detected\<close>. Its \<open>recentHigh\<close> is 102, the current high itself,
  because the window \<^verbatim>\<open>highs15m.slice(-breakoutPeriod)\<close> includes the current candle, and
  102 is not at least 102 raised by 1 percent.
\<close>

theorem momentumBreakout_misses_breakout:
  "length breakout_bars = 25
   \<and> last (map high breakout_bars)
       = 1.02 * Math_max (slice_last 20 (butlast (map high breakout_bars)))
   \<and> last (map volume breakout_bars) = 2 * volumeMA default_config (map volume breakout_bars)
   \<and> volumeZScore default_config (map volume breakout_bars) > 1
   \<and> last (map volume breakout_bars)
       = 2 * (reduce_sum (slice_last 20 (butlast (map volume breakout_bars))) / 20)
   \<and> calculateZScore (last (map volume breakout_bars))
         (slice_last 20 (butlast (map volume breakout_bars))) > 1
   \<and> momentumBreakoutDetector (Some (snapshot_15m breakout_bars)) (Some default_config)
     = Inr \<lparr>name = Some ''momentum_breakout'', score = 0, direction = NEUTRAL,
            reason = Plain ''No breakout detected'',
            metadata = Some [(''recentHigh'', 102), (''recentLow'', 100), (''volumeZScore'', 3),
                             (''breakoutStrength'', 0)],
            weight = None\<rparr>"
proof -
  have p: "last (map high breakout_bars)
       = 1.02 * Math_max (slice_last 20 (butlast (map high breakout_bars)))"
    by (simp add: breakout_bars_fields slice_last_def)
  have d: "momentumBreakoutDetector (Some (snapshot_15m breakout_bars)) (Some default_config)
     = Inr \<lparr>name = Some ''momentum_breakout'', score = 0, direction = NEUTRAL,
            reason = Plain ''No breakout detected'',
            metadata = Some [(''recentHigh'', 102), (''recentLow'', 100), (''volumeZScore'', 3),
                             (''breakoutStrength'', 0)],
            weight = None\<rparr>"
    by (simp add: momentumBreakoutDetector_present breakout_bars_fields default_config_fields
          momentumBreakout_verdict_def window_zscore)
       (simp add: isBreakout_def recentHigh_def recentLow_def default_config_fields slice_last_def
          Math_round_def)
  have q: "last (map volume breakout_bars)
       = 2 * (reduce_sum (slice_last 20 (butlast (map volume breakout_bars))) / 20)"
    by (simp add: breakout_bars_fields slice_last_def reduce_sum_def)
  have z: "calculateZScore (last (map volume breakout_bars))
         (slice_last 20 (butlast (map volume breakout_bars))) > 1"
    by (simp add: breakout_bars_fields slice_last_def calculateZScore_def reduce_sum_def Let_def
        power2_eq_square sqrt_9_4)
  show ?thesis
    using p d q z by (simp add: breakout_bars_fields window_zscore window_volumeMA)
qed

text \<open>
  C5. The claim: on a series of at least 25 candles whose current close is below 0.99
  times the trailing low of the last 20 bars, with the volume confirmation, the detector
  answers \<open>SHORT\<close> with the score \<open>min(100, breakdownPct x 1.5)\<close>. The code does not: on
  \<open>gapdown_bars\<close> the lowest low of the 20 candles before the current one is 100, the
  close of 97.5 undercuts it by 2.5 percent and is below 99, the volume z-score is 3 and
  the volume of 9 is above 1.5 times the mean of 4.5, and the detector answers \<open>NEUTRAL\<close>
  with score 0 and the reason \<open>No breakout detected\<close>. Its \<open>recentLow\<close> is 98, the high of
  the current candle: it is \<^verbatim>\<open>Math.min(...highs15m.slice(-breakoutPeriod))\<close>, the
  minimum of the highs, not of the lows, over a window that includes the current candle,
  and 97.5 is not below 0.99 times 98. The numbers returned are doubles, and the two
  comparisons that fail are far from equality: 98 against 111.1 for the breakout, 97.5
  against 97.02 for the breakdown.
\<close>

theorem momentumBreakout_misses_breakdown:
  "25 \<le> length gapdown_bars
   \<and> Math_min (slice_last 20 (butlast (map low gapdown_bars))) = 100
   \<and> last (map close gapdown_bars)
       < 0.99 * Math_min (slice_last 20 (butlast (map low gapdown_bars)))
   \<and> (Math_min (slice_last 20 (butlast (map low gapdown_bars))) - last (map close gapdown_bars))
       / Math_min (slice_last 20 (butlast (map low gapdown_bars))) * 100 = 2.5
   \<and> volumeZScore default_config (map volume gapdown_bars) > 1
   \<and> last (map volume gapdown_bars)
       > volumeMA default_config (map volume gapdown_bars) * 1.5
   \<and> calculateZScore (last (map volume gapdown_bars))
         (slice_last 20 (butlast (map volume gapdown_bars))) > 1
   \<and> last (map volume gapdown_bars)
       > reduce_sum (slice_last 20 (butlast (map volume gapdown_bars))) / 20 * 1.5
   \<and> momentumBreakoutDetector (Some (snapshot_15m gapdown_bars)) (Some default_config)
     = Inr \<lparr>name = Some ''momentum_breakout'', score = 0, direction = NEUTRAL,
            reason = Plain ''No breakout detected'',
            metadata = Some [(''recentHigh'', 110), (''recentLow'', 98), (''volumeZScore'', 3),
                             (''breakoutStrength'', 0)],
            weight = None\<rparr>"
proof -
  have l: "Math_min (slice_last 20 (butlast (map low gapdown_bars))) = 100"
    by (simp add: gapdown_bars_fields slice_last_def)
  have c: "last (map close gapdown_bars) = 97.5"
    by (simp add: gapdown_bars_fields)
  have d: "momentumBreakoutDetector (Some (snapshot_15m gapdown_bars)) (Some default_config)
     = Inr \<lparr>name = Some ''momentum_breakout'', score = 0, direction = NEUTRAL,
            reason = Plain ''No breakout detected'',
            metadata = Some [(''recentHigh'', 110), (''recentLow'', 98), (''volumeZScore'', 3),
                             (''breakoutStrength'', 0)],
            weight = None\<rparr>"
    by (simp add: momentumBreakoutDetector_present gapdown_bars_fields default_config_fields
          momentumBreakout_verdict_def window_zscore)
       (simp add: isBreakout_def recentHigh_def recentLow_def default_config_fields slice_last_def
          Math_round_def)
  have q: "last (map volume gapdown_bars)
       > reduce_sum (slice_last 20 (butlast (map volume gapdown_bars))) / 20 * 1.5"
    by (simp add: gapdown_bars_fields slice_last_def reduce_sum_def)
  have z: "calculateZScore (last (map volume gapdown_bars))
         (slice_last 20 (butlast (map volume gapdown_bars))) > 1"
    by (simp add: gapdown_bars_fields slice_last_def calculateZScore_def reduce_sum_def Let_def
        power2_eq_square sqrt_9_4)
  show ?thesis
    using d q z by (simp add: l c) (simp add: gapdown_bars_fields window_zscore window_volumeMA)
qed


section \<open>Faults inside the detectors\<close>

lemma caught_fields:
  "score (caught nm e) = 0" "direction (caught nm e) = NEUTRAL"
  "reason (caught nm e) = ErrorReason (message e)" "name (caught nm e) = Some nm"
  by (simp_all add: caught_def)

text \<open>With a configuration object, no detector throws.\<close>

lemma detectors_return:
  "\<exists>v. momentumBreakoutDetector data (Some cfg) = Inr v"
  "\<exists>v. vwapPullbackDetector data (Some cfg) = Inr v"
  "\<exists>v. volatilitySqueezeDetector env data (Some cfg) = Inr v"
  "\<exists>v. orderbookSweepDetector data config = Inr v"
  "\<exists>v. rsiMomentumDetector env data (Some cfg) = Inr v"
  "\<exists>v. volumeSpikeDetector data (Some cfg) = Inr v"
  "\<exists>v. correlationBreakDetector env data config = Inr v"
  by (simp_all add: momentumBreakoutDetector_def vwapPullbackDetector_def
      volatilitySqueezeDetector_def orderbookSweepDetector_def rsiMomentumDetector_def
      volumeSpikeDetector_def correlationBreakDetector_def destructure_def)

lemma detectors_catch:
  "momentumBreakout_try data cfg = Inl e \<Longrightarrow>
     momentumBreakoutDetector data (Some cfg) = Inr (caught ''momentum_breakout'' e)"
  "vwapPullback_try data cfg = Inl e \<Longrightarrow>
     vwapPullbackDetector data (Some cfg) = Inr (caught ''vwap_pullback'' e)"
  "volatilitySqueeze_try env data cfg = Inl e \<Longrightarrow>
     volatilitySqueezeDetector env data (Some cfg) = Inr (caught ''volatility_squeeze'' e)"
  "orderbookSweep_try data = Inl e \<Longrightarrow>
     orderbookSweepDetector data config = Inr (caught ''orderbook_sweep'' e)"
  "rsiMomentum_try env data cfg = Inl e \<Longrightarrow>
     rsiMomentumDetector env data (Some cfg) = Inr (caught ''rsi_momentum'' e)"
  "volumeSpike_try data cfg = Inl e \<Longrightarrow>
     volumeSpikeDetector data (Some cfg) = Inr (caught ''volume_spike'' e)"
  "correlationBreak_try env data = Inl e \<Longrightarrow>
     correlationBreakDetector env data config = Inr (caught ''correlation_break'' e)"
  by (simp_all add: momentumBreakoutDetector_def vwapPullbackDetector_def
      volatilitySqueezeDetector_def orderbookSweepDetector_def rsiMomentumDetector_def
      volumeSpikeDetector_def correlationBreakDetector_def destructure_def)

lemma runAllDetectors_unfold:
  "runAllDetectors env data config =
     map (\<lambda>(lowered, r, w).
        case r of
          Inr result \<Rightarrow> result\<lparr>weight := Some w\<rparr>
        | Inl error \<Rightarrow> caught_by_suite lowered error w)
       [(''momentumbreakout'', momentumBreakoutDetector data config, 1.2),
        (''vwappullback'', vwapPullbackDetector data config, 1.1),
        (''volatilitysqueeze'', volatilitySqueezeDetector env data config, 1.0),
        (''orderbooksweep'', orderbookSweepDetector data config, 0.9),
        (''rsimomentum'', rsiMomentumDetector env data config, 1.0),
        (''volumespike'', volumeSpikeDetector data config, 1.0),
        (''correlationbreak'', correlationBreakDetector env data config, 0.7)]"
  by (simp add: runAllDetectors_def detectors_def)

lemma runAllDetectors_weights:
  "map weight (runAllDetectors env data config)
     = [Some 1.2, Some 1.1, Some 1.0, Some 0.9, Some 1.0, Some 1.0, Some 0.7]"
  by (simp add: runAllDetectors_unfold caught_by_suite_def split: sum.splits)

lemma runAllDetectors_object_config:
  "\<exists>v1 v2 v3 v4 v5 v6 v7.
      momentumBreakoutDetector data (Some cfg) = Inr v1
    \<and> vwapPullbackDetector data (Some cfg) = Inr v2
    \<and> volatilitySqueezeDetector env data (Some cfg) = Inr v3
    \<and> orderbookSweepDetector data (Some cfg) = Inr v4
    \<and> rsiMomentumDetector env data (Some cfg) = Inr v5
    \<and> volumeSpikeDetector data (Some cfg) = Inr v6
    \<and> correlationBreakDetector env data (Some cfg) = Inr v7
    \<and> runAllDetectors env data (Some cfg)
        = [v1\<lparr>weight := Some 1.2\<rparr>, v2\<lparr>weight := Some 1.1\<rparr>, v3\<lparr>weight := Some 1.0\<rparr>,
           v4\<lparr>weight := Some 0.9\<rparr>, v5\<lparr>weight := Some 1.0\<rparr>, v6\<lparr>weight := Some 1.0\<rparr>,
           v7\<lparr>weight := Some 0.7\<rparr>]"
proof -
  obtain v1 where v1: "momentumBreakoutDetector data (Some cfg) = Inr v1"
    using detectors_return(1) by blast
  obtain v2 where v2: "vwapPullbackDetector data (Some cfg) = Inr v2"
    using detectors_return(2) by blast
  obtain v3 where v3: "volatilitySqueezeDetector env data (Some cfg) = Inr v3"
    using detectors_return(3) by blast
  obtain v4 where v4: "orderbookSweepDetector data (Some cfg) = Inr v4"
    using detectors_return(4) by blast
  obtain v5 where v5: "rsiMomentumDetector env data (Some cfg) = Inr v5"
    using detectors_return(5) by blast
  obtain v6 where v6: "volumeSpikeDetector data (Some cfg) = Inr v6"
    using detectors_return(6) by blast
  obtain v7 where v7: "correlationBreakDetector env data (Some cfg) = Inr v7"
    using detectors_return(7) by blast
  show ?thesis by (simp add: runAllDetectors_unfold v1 v2 v3 v4 v5 v6 v7)
qed

text \<open>
  With a \<open>null\<close> configuration the five detectors that destructure it throw before their
  \<open>try\<close> block, and the loop of \<open>runAllDetectors\<close> catches that.
\<close>

lemma runAllDetectors_null_config:
  "\<exists>v4 v7.
      orderbookSweepDetector data None = Inr v4
    \<and> correlationBreakDetector env data None = Inr v7
    \<and> runAllDetectors env data None
        = [caught_by_suite ''momentumbreakout'' (TypeError ''Cannot destructure property of null'') 1.2,
           caught_by_suite ''vwappullback'' (TypeError ''Cannot destructure property of null'') 1.1,
           caught_by_suite ''volatilitysqueeze'' (TypeError ''Cannot destructure property of null'') 1.0,
           v4\<lparr>weight := Some 0.9\<rparr>,
           caught_by_suite ''rsimomentum'' (TypeError ''Cannot destructure property of null'') 1.0,
           caught_by_suite ''volumespike'' (TypeError ''Cannot destructure property of null'') 1.0,
           v7\<lparr>weight := Some 0.7\<rparr>]"
proof -
  obtain v4 where v4: "orderbookSweepDetector data None = Inr v4"
    using detectors_return(4) by blast
  obtain v7 where v7: "correlationBreakDetector env data None = Inr v7"
    using detectors_return(7) by blast
  show ?thesis
    by (simp add: runAllDetectors_unfold v4 v7 momentumBreakoutDetector_def
        vwapPullbackDetector_def volatilitySqueezeDetector_def rsiMomentumDetector_def
        volumeSpikeDetector_def destructure_def)
qed

lemma null_snapshot_faults:
  "momentumBreakout_try None cfg = Inl (TypeError ''Cannot read properties of null (reading 15m)'')"
  "vwapPullback_try None cfg = Inl (TypeError ''Cannot read properties of null (reading 1m)'')"
  "volatilitySqueeze_try env None cfg
     = Inl (TypeError ''Cannot read properties of null (reading 15m)'')"
  "orderbookSweep_try None = Inl (TypeError ''Cannot read properties of null (reading orderbook)'')"
  "rsiMomentum_try env None cfg = Inl (TypeError ''Cannot read properties of null (reading 15m)'')"
  "volumeSpike_try None cfg = Inl (TypeError ''Cannot read properties of null (reading 15m)'')"
  "correlationBreak_try env None = Inl (TypeError ''Cannot read properties of null (reading 1h)'')"
  by (simp_all add: momentumBreakout_try_def vwapPullback_try_def volatilitySqueeze_try_def
      orderbookSweep_try_def rsiMomentum_try_def volumeSpike_try_def correlationBreak_try_def
      timeframe_def)

lemma holed_snapshot_fault:
  "momentumBreakout_try (Some holed_snapshot) default_config
     = Inl (TypeError ''Cannot read properties of null (reading close)'')"
  by (simp add: momentumBreakout_try_def timeframe_def holed_snapshot_def default_config_def
      flat_bars_def bar_def read_prop_def)

text \<open>
  C7. For every snapshot (also \<open>null\<close>, also with holes in its arrays) and every
  configuration object: an exception raised in the \<open>try\<close> block of a detector is caught
  by that detector, which then returns the verdict with its own name, score 0, direction
  \<open>NEUTRAL\<close> and the reason \<open>Error:\<close> followed by the message of the exception.
  \<open>runAllDetectors\<close> returns a list and never an exception: seven verdicts, those of the
  seven detectors in the order of registration, with the weights 1.2, 1.1, 1.0, 0.9, 1.0,
  1.0 and 0.7. The weights are the same for every configuration; for a \<open>null\<close>
  configuration, where five detectors throw outside their \<open>try\<close> block, the loop of
  \<open>runAllDetectors\<close> puts a verdict of score 0 and direction \<open>NEUTRAL\<close> in their places.
\<close>

theorem runAllDetectors_contains_faults:
  "(momentumBreakout_try data cfg = Inl e_momentum \<longrightarrow>
      momentumBreakoutDetector data (Some cfg) = Inr (caught ''momentum_breakout'' e_momentum))
   \<and> (vwapPullback_try data cfg = Inl e_vwap \<longrightarrow>
      vwapPullbackDetector data (Some cfg) = Inr (caught ''vwap_pullback'' e_vwap))
   \<and> (volatilitySqueeze_try env data cfg = Inl e_squeeze \<longrightarrow>
      volatilitySqueezeDetector env data (Some cfg) = Inr (caught ''volatility_squeeze'' e_squeeze))
   \<and> (orderbookSweep_try data = Inl e_book \<longrightarrow>
      orderbookSweepDetector data (Some cfg) = Inr (caught ''orderbook_sweep'' e_book))
   \<and> (rsiMomentum_try env data cfg = Inl e_rsi \<longrightarrow>
      rsiMomentumDetector env data (Some cfg) = Inr (caught ''rsi_momentum'' e_rsi))
   \<and> (volumeSpike_try data cfg = Inl e_volume \<longrightarrow>
      volumeSpikeDetector data (Some cfg) = Inr (caught ''volume_spike'' e_volume))
   \<and> (correlationBreak_try env data = Inl e_correlation \<longrightarrow>
      correlationBreakDetector env data (Some cfg) = Inr (caught ''correlation_break'' e_correlation))
   \<and> score (caught nm e) = 0 \<and> direction (caught nm e) = NEUTRAL
   \<and> reason (caught nm e) = ErrorReason (message e)
   \<and> (\<exists>v1 v2 v3 v4 v5 v6 v7.
          momentumBreakoutDetector data (Some cfg) = Inr v1
        \<and> vwapPullbackDetector data (Some cfg) = Inr v2
        \<and> volatilitySqueezeDetector env data (Some cfg) = Inr v3
        \<and> orderbookSweepDetector data (Some cfg) = Inr v4
        \<and> rsiMomentumDetector env data (Some cfg) = Inr v5
        \<and> volumeSpikeDetector data (Some cfg) = Inr v6
        \<and> correlationBreakDetector env data (Some cfg) = Inr v7
        \<and> runAllDetectors env data (Some cfg)
            = [v1\<lparr>weight := Some 1.2\<rparr>, v2\<lparr>weight := Some 1.1\<rparr>, v3\<lparr>weight := Some 1.0\<rparr>,
               v4\<lparr>weight := Some 0.9\<rparr>, v5\<lparr>weight := Some 1.0\<rparr>, v6\<lparr>weight := Some 1.0\<rparr>,
               v7\<lparr>weight := Some 0.7\<rparr>])
   \<and> map weight (runAllDetectors env data config)
       = [Some 1.2, Some 1.1, Some 1.0, Some 0.9, Some 1.0, Some 1.0, Some 0.7]
   \<and> map (\<lambda>v. (score v, direction v)) (runAllDetectors env None None)
       = [(0, NEUTRAL), (0, NEUTRAL), (0, NEUTRAL), (0, NEUTRAL), (0, NEUTRAL), (0, NEUTRAL),
          (0, NEUTRAL)]"
proof (intro conjI impI)
  show "\<exists>v1 v2 v3 v4 v5 v6 v7.
          momentumBreakoutDetector data (Some cfg) = Inr v1
        \<and> vwapPullbackDetector data (Some cfg) = Inr v2
        \<and> volatilitySqueezeDetector env data (Some cfg) = Inr v3
        \<and> orderbookSweepDetector data (Some cfg) = Inr v4
        \<and> rsiMomentumDetector env data (Some cfg) = Inr v5
        \<and> volumeSpikeDetector data (Some cfg) = Inr v6
        \<and> correlationBreakDetector env data (Some cfg) = Inr v7
        \<and> runAllDetectors env data (Some cfg)
            = [v1\<lparr>weight := Some 1.2\<rparr>, v2\<lparr>weight := Some 1.1\<rparr>, v3\<lparr>weight := Some 1.0\<rparr>,
               v4\<lparr>weight := Some 0.9\<rparr>, v5\<lparr>weight := Some 1.0\<rparr>, v6\<lparr>weight := Some 1.0\<rparr>,
               v7\<lparr>weight := Some 0.7\<rparr>]"
    by (rule runAllDetectors_object_config)
  show "map weight (runAllDetectors env data config)
       = [Some 1.2, Some 1.1, Some 1.0, Some 0.9, Some 1.0, Some 1.0, Some 0.7]"
    by (rule runAllDetectors_weights)
  show "map (\<lambda>v. (score v, direction v)) (runAllDetectors env None None)
       = [(0, NEUTRAL), (0, NEUTRAL), (0, NEUTRAL), (0, NEUTRAL), (0, NEUTRAL), (0, NEUTRAL),
          (0, NEUTRAL)]"
    by (simp add: runAllDetectors_unfold momentumBreakoutDetector_def vwapPullbackDetector_def
        volatilitySqueezeDetector_def rsiMomentumDetector_def volumeSpikeDetector_def
        destructure_def caught_by_suite_def orderbookSweepDetector_def correlationBreakDetector_def
        null_snapshot_faults caught_def)
qed (simp_all add: detectors_catch caught_fields)

theorem runAllDetectors_contains_faults_witness:
  "momentumBreakout_try None default_config
     = Inl (TypeError ''Cannot read properties of null (reading 15m)'')
   \<and> vwapPullback_try None default_config
     = Inl (TypeError ''Cannot read properties of null (reading 1m)'')
   \<and> volatilitySqueeze_try (env_with (1 / 2)) None default_config
     = Inl (TypeError ''Cannot read properties of null (reading 15m)'')
   \<and> orderbookSweep_try None = Inl (TypeError ''Cannot read properties of null (reading orderbook)'')
   \<and> rsiMomentum_try (env_with (1 / 2)) None default_config
     = Inl (TypeError ''Cannot read properties of null (reading 15m)'')
   \<and> volumeSpike_try None default_config
     = Inl (TypeError ''Cannot read properties of null (reading 15m)'')
   \<and> correlationBreak_try (env_with (1 / 2)) None
     = Inl (TypeError ''Cannot read properties of null (reading 1h)'')
   \<and> runAllDetectors (env_with (1 / 2)) None (Some default_config)
     = [(caught ''momentum_breakout''
           (TypeError ''Cannot read properties of null (reading 15m)''))\<lparr>weight := Some 1.2\<rparr>,
        (caught ''vwap_pullback''
           (TypeError ''Cannot read properties of null (reading 1m)''))\<lparr>weight := Some 1.1\<rparr>,
        (caught ''volatility_squeeze''
           (TypeError ''Cannot read properties of null (reading 15m)''))\<lparr>weight := Some 1.0\<rparr>,
        (caught ''orderbook_sweep''
           (TypeError ''Cannot read properties of null (reading orderbook)''))\<lparr>weight := Some 0.9\<rparr>,
        (caught ''rsi_momentum''
           (TypeError ''Cannot read properties of null (reading 15m)''))\<lparr>weight := Some 1.0\<rparr>,
        (caught ''volume_spike''
           (TypeError ''Cannot read properties of null (reading 15m)''))\<lparr>weight := Some 1.0\<rparr>,
        (caught ''correlation_break''
           (TypeError ''Cannot read properties of null (reading 1h)''))\<lparr>weight := Some 0.7\<rparr>]
   \<and> momentumBreakout_try (Some holed_snapshot) default_config
     = Inl (TypeError ''Cannot read properties of null (reading close)'')
   \<and> momentumBreakoutDetector (Some holed_snapshot) (Some default_config)
     = Inr (caught ''momentum_breakout''
              (TypeError ''Cannot read properties of null (reading close)''))"
proof -
  note f = null_snapshot_faults
  note t = runAllDetectors_contains_faults[where data = None and cfg = default_config
      and env = "env_with (1 / 2)"
      and e_momentum = "TypeError ''Cannot read properties of null (reading 15m)''"
      and e_vwap = "TypeError ''Cannot read properties of null (reading 1m)''"
      and e_squeeze = "TypeError ''Cannot read properties of null (reading 15m)''"
      and e_book = "TypeError ''Cannot read properties of null (reading orderbook)''"
      and e_rsi = "TypeError ''Cannot read properties of null (reading 15m)''"
      and e_volume = "TypeError ''Cannot read properties of null (reading 15m)''"
      and e_correlation = "TypeError ''Cannot read properties of null (reading 1h)''"]
  note h = runAllDetectors_contains_faults[where data = "Some holed_snapshot"
      and cfg = default_config
      and e_momentum = "TypeError ''Cannot read properties of null (reading close)''"]
  note d =
    t[THEN conjunct1, THEN mp, OF f(1)]
    t[THEN conjunct2, THEN conjunct1, THEN mp, OF f(2)]
    t[THEN conjunct2, THEN conjunct2, THEN conjunct1, THEN mp, OF f(3)]
    t[THEN conjunct2, THEN conjunct2, THEN conjunct2, THEN conjunct1, THEN mp, OF f(4)]
    t[THEN conjunct2, THEN conjunct2, THEN conjunct2, THEN conjunct2, THEN conjunct1, THEN mp,
      OF f(5)]
    t[THEN conjunct2, THEN conjunct2, THEN conjunct2, THEN conjunct2, THEN conjunct2,
      THEN conjunct1, THEN mp, OF f(6)]
    t[THEN conjunct2, THEN conjunct2, THEN conjunct2, THEN conjunct2, THEN conjunct2,
      THEN conjunct2, THEN conjunct1, THEN mp, OF f(7)]
  have run: "runAllDetectors (env_with (1 / 2)) None (Some default_config)
     = [(caught ''momentum_breakout''
           (TypeError ''Cannot read properties of null (reading 15m)''))\<lparr>weight := Some 1.2\<rparr>,
        (caught ''vwap_pullback''
           (TypeError ''Cannot read properties of null (reading 1m)''))\<lparr>weight := Some 1.1\<rparr>,
        (caught ''volatility_squeeze''
           (TypeError ''Cannot read properties of null (reading 15m)''))\<lparr>weight := Some 1.0\<rparr>,
        (caught ''orderbook_sweep''
           (TypeError ''Cannot read properties of null (reading orderbook)''))\<lparr>weight := Some 0.9\<rparr>,
        (caught ''rsi_momentum''
           (TypeError ''Cannot read properties of null (reading 15m)''))\<lparr>weight := Some 1.0\<rparr>,
        (caught ''volume_spike''
           (TypeError ''Cannot read properties of null (reading 15m)''))\<lparr>weight := Some 1.0\<rparr>,
        (caught ''correlation_break''
           (TypeError ''Cannot read properties of null (reading 1h)''))\<lparr>weight := Some 0.7\<rparr>]"
    by (simp add: runAllDetectors_unfold d)
  note hole = h[THEN conjunct1, THEN mp, OF holed_snapshot_fault]
  from f run hole holed_snapshot_fault show ?thesis by simp
qed

section \<open>The direction of the correlation break detector\<close>

lemma volatile_priceChanges: "priceChanges (map Some volatile_bars) = Inr volatile_changes"
  by (simp add: volatile_bars_def hour_bar_def read_prop_def volatile_changes_def)

lemma volatile_std:
  "Math_std (slice_last 5 volatile_changes) = sqrt (1 / 125)"
  "Math_std volatile_changes = sqrt (1 / 600)"
  by (simp_all add: Math_std_def slice_last_def volatile_changes_def reduce_sum_def Let_def
      power2_eq_square)

lemma volatile_condition:
  "Math_std (slice_last 5 volatile_changes) * 100 > Math_std volatile_changes * 100 * 2"
proof -
  have "sqrt (1 / 150) = sqrt (4 * (1 / 600))" by simp
  also have "\<dots> = sqrt 4 * sqrt (1 / 600)" by (rule real_sqrt_mult)
  finally have e: "sqrt (1 / 600) * 2 = sqrt (1 / 150)" by simp
  have "sqrt (1 / 150) < sqrt (1 / 125)"
    by (rule real_sqrt_less_mono) simp
  with e have "sqrt (1 / 600) * 2 < sqrt (1 / 125)" by simp
  then show ?thesis by (simp add: volatile_std)
qed

lemma correlationBreak_volatile:
  "\<exists>v. correlationBreakDetector env (Some volatile_snapshot) config = Inr v
       \<and> direction v = (if Math_random env > 0.5 then LONG else SHORT)"
  using volatile_condition
  by (simp add: correlationBreakDetector_def correlationBreak_try_def timeframe_def
      volatile_snapshot_def volatile_priceChanges Let_def)
     (simp add: volatile_bars_def)

lemma runAllDetectors_last:
  "runAllDetectors env data config ! 6 =
     (case correlationBreakDetector env data config of
        Inr result \<Rightarrow> result\<lparr>weight := Some 0.7\<rparr>
      | Inl error \<Rightarrow> caught_by_suite ''correlationbreak'' error 0.7)"
  by (simp add: runAllDetectors_def detectors_def)

text \<open>
  C10. \<open>correlationBreakDetector\<close> is not a function of the snapshot alone. On
  \<open>volatile_snapshot\<close>, whose hourly series has 25 candles and whose last five changes have
  a volatility of more than twice that of all changes, the verdict is \<open>LONG\<close> when
  \<open>Math.random()\<close> returns 0.75 and \<open>SHORT\<close> when it returns 0.25; and the two runs of
  \<open>runAllDetectors\<close> on this snapshot return different lists.
\<close>

theorem correlationBreak_not_deterministic:
  "length volatile_bars \<ge> 10
   \<and> priceChanges (map Some volatile_bars) = Inr volatile_changes
   \<and> Math_std (slice_last 5 volatile_changes) * 100 > Math_std volatile_changes * 100 * 2
   \<and> (\<exists>v. correlationBreakDetector (env_with (3 / 4)) (Some volatile_snapshot) config = Inr v
          \<and> direction v = LONG)
   \<and> (\<exists>v. correlationBreakDetector (env_with (1 / 4)) (Some volatile_snapshot) config = Inr v
          \<and> direction v = SHORT)
   \<and> runAllDetectors (env_with (3 / 4)) (Some volatile_snapshot) config
       \<noteq> runAllDetectors (env_with (1 / 4)) (Some volatile_snapshot) config"
proof -
  have l: "length volatile_bars \<ge> 10" by (simp add: volatile_bars_def)
  obtain v1 where v1:
      "correlationBreakDetector (env_with (3 / 4)) (Some volatile_snapshot) config = Inr v1"
      "direction v1 = LONG"
    using correlationBreak_volatile[of "env_with (3 / 4)" config] by (auto simp: env_with_def)
  obtain v2 where v2:
      "correlationBreakDetector (env_with (1 / 4)) (Some volatile_snapshot) config = Inr v2"
      "direction v2 = SHORT"
    using correlationBreak_volatile[of "env_with (1 / 4)" config] by (auto simp: env_with_def)
  have "direction (runAllDetectors (env_with (3 / 4)) (Some volatile_snapshot) config ! 6) = LONG"
    by (simp add: runAllDetectors_last v1)
  moreover
  have "direction (runAllDetectors (env_with (1 / 4)) (Some volatile_snapshot) config ! 6) = SHORT"
    by (simp add: runAllDetectors_last v2)
  ultimately have "runAllDetectors (env_with (3 / 4)) (Some volatile_snapshot) config
       \<noteq> runAllDetectors (env_with (1 / 4)) (Some volatile_snapshot) config"
    by (metis direction.distinct(1))
  with l volatile_priceChanges volatile_condition v1 v2 show ?thesis by blast
qed


section \<open>The two versions of the ensemble side by side\<close>

text \<open>
  The statements on the agreement, the decision and the fallback levels above are about
  the simplified version, those on the meta-score formula and the time-of-day multiplier
  about the full version. This section records what the full version does where the
  simplified one was described.

  The full version decides by the same three conditions, and a majority count below
  \<open>minDetectorAgreement\<close> gives \<open>NO_TRADE\<close> there too, whenever \<open>analyze\<close> returns.
\<close>

lemma analyze_full_gate:
  "(analyze_full ar cfg hour ds data = Inr dec \<and> full_decided dec \<noteq> NO_TRADE \<longrightarrow>
      majorityDirection (calculateDetectorAgreement_full ds) \<noteq> NEUTRAL
      \<and> majorityCount (calculateDetectorAgreement_full ds) \<ge> minDetectorAgreement cfg
      \<and> (\<exists>m. calculateMetaScore_full ar cfg hour ds (calculateDetectorAgreement_full ds) = Inr m
             \<and> m \<ge> minConfidence cfg))
   \<and> (majorityCount (calculateDetectorAgreement_full ds) < minDetectorAgreement cfg
       \<and> analyze_full ar cfg hour ds data = Inr dec \<longrightarrow> full_decided dec = NO_TRADE)"
proof (intro conjI impI)
  assume a: "analyze_full ar cfg hour ds data = Inr dec \<and> full_decided dec \<noteq> NO_TRADE"
  show "majorityDirection (calculateDetectorAgreement_full ds) \<noteq> NEUTRAL"
    by (rule agreement_full_majority)
  obtain m where m:
    "calculateMetaScore_full ar cfg hour ds (calculateDetectorAgreement_full ds) = Inr m"
    using a
    by (cases "calculateMetaScore_full ar cfg hour ds (calculateDetectorAgreement_full ds)")
       (auto simp: analyze_full_def Let_def)
  have both: "majorityCount (calculateDetectorAgreement_full ds) \<ge> minDetectorAgreement cfg
      \<and> m \<ge> minConfidence cfg"
  proof (rule ccontr)
    assume "\<not> ?thesis"
    then have "full_decided dec = NO_TRADE"
      using a m by (auto simp: analyze_full_def Let_def)
    with a show False by simp
  qed
  then show "majorityCount (calculateDetectorAgreement_full ds) \<ge> minDetectorAgreement cfg"
    by simp
  from both m
  show "\<exists>m. calculateMetaScore_full ar cfg hour ds (calculateDetectorAgreement_full ds) = Inr m
             \<and> m \<ge> minConfidence cfg"
    by blast
next
  assume b: "majorityCount (calculateDetectorAgreement_full ds) < minDetectorAgreement cfg
       \<and> analyze_full ar cfg hour ds data = Inr dec"
  then show "full_decided dec = NO_TRADE"
    by (cases "calculateMetaScore_full ar cfg hour ds (calculateDetectorAgreement_full ds)")
       (auto simp: analyze_full_def Let_def)
qed

text \<open>
  C2 as it is stated fails in the full version: its \<open>calculateMetaScore\<close> has no early
  return. For one \<open>LONG\<close> verdict of score 80 the majority count is 1, below the default
  \<open>minDetectorAgreement\<close> of 2, and the computed meta-score at noon is 80, not 0.
\<close>

theorem calculateMetaScore_full_below_threshold_counterexample:
  "majorityCount (calculateDetectorAgreement_full one_long)
     < minDetectorAgreement default_ensemble_config
   \<and> calculateMetaScore_full exact default_ensemble_config 12 one_long
       (calculateDetectorAgreement_full one_long) = Inr 80"
  by (simp add: calculateMetaScore_full_def one_long_def verdict_of_def exact_def
      calculateDetectorAgreement_full_def tally_full_count majorityEntry_eq Let_def
      default_ensemble_config_def configured_weight_def default_detectorWeights_def family_def
      getTimeOfDayMultiplier_def default_timeOfDayMultipliers_def range_matches_def
      range_bounds_def Number_def digit_value_def)

text \<open>
  C3 as it is stated fails in the full version: its \<open>calculateDetectorAgreement\<close> has no
  test of the score. A single \<open>LONG\<close> verdict of score 10, which is not above 40, is
  counted in the \<open>LONG\<close> tally and makes the majority.
\<close>

theorem calculateDetectorAgreement_full_low_score_counterexample:
  "map direction low_long = [LONG]
   \<and> map score low_long = [10]
   \<and> directions (calculateDetectorAgreement_full low_long) LONG = 1
   \<and> majorityCount (calculateDetectorAgreement_full low_long) = 1"
  by (simp add: calculateDetectorAgreement_full_def tally_full_count majorityEntry_eq Let_def
      low_long_def verdict_of_def)

text \<open>
  C6 as it is stated fails in the full version: its \<open>generateLevels\<close> has no path for
  fewer than 10 candles. Without candles and without verdicts, for direction \<open>LONG\<close> at a
  current price of 100, the default of 2 percent stands for the ATR, the stop loss is 0.8
  of it below the entry, at 98.4 and not at 98, and the ratio is 1.5 and not 1.8.
\<close>

theorem generateLevels_full_fallback_counterexample:
  "length (case tf15m empty_snapshot of None \<Rightarrow> [] | Some cs \<Rightarrow> cs) < 10
   \<and> generateLevels_full LONG 100 empty_snapshot []
       = Inr \<lparr>entry = 100, sl = 98.4, tp = 102.4, rr = 1.5\<rparr>"
  by (simp add: generateLevels_full_def calculateAverageATR_def empty_snapshot_def Let_def
      toFixed_def)

end
